theory Spec2Isabelle
  imports Main "HOL-Library.AList"
begin

section \<open>Go values used by config.go\<close>

text \<open>
  A Go string is a sequence of bytes, and \<open>len\<close> counts bytes: it is a \<^typ>\<open>string\<close>
  here, measured by \<^const>\<open>length\<close>.

  A Go slice is either \<open>nil\<close> or a sequence of elements. \<open>len\<close>, \<open>range\<close> and
  \<open>append\<close> treat \<open>nil\<close> as the empty sequence, but a \<open>nil\<close> slice and an empty one
  are different values.
\<close>

datatype 'a slice = NilSlice | Slice "'a list"

fun elems :: "'a slice \<Rightarrow> 'a list" where
  "elems NilSlice = []"
| "elems (Slice xs) = xs"

text \<open>
  \<open>append(s, xs...)\<close>: with nothing to append the slice comes back as it is (a \<open>nil\<close>
  slice stays \<open>nil\<close>); otherwise the result holds the old elements followed by the new.
\<close>

definition append_slice :: "'a slice \<Rightarrow> 'a list \<Rightarrow> 'a slice" where
  "append_slice s xs = (if xs = [] then s else Slice (elems s @ xs))"

text \<open>
  A Go \<open>map[string]string\<close> is either \<open>nil\<close> or a table with one value for each key.
  The table is an association list; its order stands for the order in which a \<open>range\<close>
  loop happens to visit the entries, which Go leaves open. Reading a \<open>nil\<close> map finds
  no entry; writing to it panics.
\<close>

datatype gomap = NilMap | Map "(string \<times> string) list"

fun entries :: "gomap \<Rightarrow> (string \<times> string) list" where
  "entries NilMap = []"
| "entries (Map kvs) = kvs"

text \<open>\<open>m[k] = v\<close>; \<open>None\<close> is the panic of a write to a \<open>nil\<close> map.\<close>

fun assign :: "gomap \<Rightarrow> string \<Rightarrow> string \<Rightarrow> gomap option" where
  "assign NilMap k v = None"
| "assign (Map kvs) k v = Some (Map (AList.update k v kvs))"

text \<open>\<open>v, ok := m[k]\<close>\<close>

definition lookup :: "gomap \<Rightarrow> string \<Rightarrow> string option" where
  "lookup m k = map_of (entries m) k"

text \<open>\<open>time.Duration\<close> counts nanoseconds.\<close>

type_synonym Duration = int

definition Second :: Duration where
  "Second = 1000000000"

subsection \<open>Package \<open>strings\<close>\<close>

definition HasPrefix :: "string \<Rightarrow> string \<Rightarrow> bool" where
  "HasPrefix s p = (length p \<le> length s \<and> take (length p) s = p)"

definition HasSuffix :: "string \<Rightarrow> string \<Rightarrow> bool" where
  "HasSuffix s x = (length x \<le> length s \<and> drop (length s - length x) s = x)"

definition TrimSuffix :: "string \<Rightarrow> string \<Rightarrow> string" where
  "TrimSuffix s x = (if HasSuffix s x then take (length s - length x) s else s)"

section \<open>The configuration\<close>

text \<open>
  The struct declarations are not part of config.go. The records below hold the fields
  that config.go reads or writes, with the types its statements give them.
\<close>

record Resource =
  URL :: string
  Methods :: "string slice"
  Roles :: "string slice"
  WhiteListed :: bool

record CORS =
  Origins :: "string slice"
  CORS_Methods :: "string slice"
  CORS_Headers :: "string slice"
  ExposedHeaders :: "string slice"
  MaxAge :: Duration
  Credentials :: bool

record Config =
  Listen :: string
  ClientSecret :: string
  ClientID :: string
  DiscoveryURL :: string
  Upstream :: string
  RevocationEndpoint :: string
  UpstreamKeepalives :: bool
  UpstreamTimeout :: Duration
  UpstreamKeepaliveTimeout :: Duration
  IdleDuration :: Duration
  SkipTokenVerification :: bool
  SkipUpstreamTLSVerify :: bool
  EncryptionKey :: string
  SecureCookie :: bool
  CookieAccessName :: string
  CookieRefreshName :: string
  CookieDomain :: string
  AddClaims :: "string slice"
  StoreURL :: string
  NoRedirects :: bool
  RedirectionURL :: string
  TLSCertificate :: string
  TLSPrivateKey :: string
  TLSCaCertificate :: string
  TLSClientCertificate :: string
  EnableMetrics :: bool
  EnableProxyProtocol :: bool
  EnableForwarding :: bool
  EnableRefreshTokens :: bool
  ForwardingUsername :: string
  ForwardingPassword :: string
  ForwardingDomains :: "string slice"
  SignInPage :: string
  ForbiddenPage :: string
  EnableSecurityFilter :: bool
  LogJSONFormat :: bool
  LogRequests :: bool
  Verbose :: bool
  Scopes :: "string slice"
  Hostnames :: "string slice"
  CrossOrigin :: CORS
  TagData :: gomap
  MatchClaims :: gomap
  Headers :: gomap
  Resources :: "Resource slice"

text \<open>
  \<open>newDefaultConfig\<close> (config.go 33-47). A field the composite literal does not name
  has the zero value of its type: the empty string, \<open>false\<close>, \<open>0\<close>, the \<open>nil\<close> slice.
  \<open>make(map[string]string, 0)\<close> is an empty map that is not \<open>nil\<close>.
\<close>

definition newDefaultConfig :: Config where
  "newDefaultConfig = \<lparr>
     Listen = ''127.0.0.1:3000'',
     ClientSecret = '''',
     ClientID = '''',
     DiscoveryURL = '''',
     Upstream = '''',
     RevocationEndpoint = '''',
     UpstreamKeepalives = False,
     UpstreamTimeout = 10 * Second,
     UpstreamKeepaliveTimeout = 10 * Second,
     IdleDuration = 0,
     SkipTokenVerification = False,
     SkipUpstreamTLSVerify = True,
     EncryptionKey = '''',
     SecureCookie = True,
     CookieAccessName = ''kc-access'',
     CookieRefreshName = ''kc-state'',
     CookieDomain = '''',
     AddClaims = NilSlice,
     StoreURL = '''',
     NoRedirects = False,
     RedirectionURL = '''',
     TLSCertificate = '''',
     TLSPrivateKey = '''',
     TLSCaCertificate = '''',
     TLSClientCertificate = '''',
     EnableMetrics = False,
     EnableProxyProtocol = False,
     EnableForwarding = False,
     EnableRefreshTokens = False,
     ForwardingUsername = '''',
     ForwardingPassword = '''',
     ForwardingDomains = NilSlice,
     SignInPage = '''',
     ForbiddenPage = '''',
     EnableSecurityFilter = False,
     LogJSONFormat = False,
     LogRequests = False,
     Verbose = False,
     Scopes = NilSlice,
     Hostnames = NilSlice,
     CrossOrigin = \<lparr>Origins = NilSlice, CORS_Methods = NilSlice,
       CORS_Headers = NilSlice, ExposedHeaders = NilSlice, MaxAge = 0, Credentials = False\<rparr>,
     TagData = Map [],
     MatchClaims = Map [],
     Headers = Map [],
     Resources = NilSlice
   \<rparr>"

section \<open>Errors\<close>

text \<open>
  One constructor for each \<open>fmt.Errorf\<close> of config.go, carrying the values the format
  string prints, and one for each place where config.go hands on an error that another
  function made: \<open>ResourceError\<close> (line 122), \<open>KeyPairError\<close> (lines 301, 308, 315),
  \<open>FileError\<close> (line 337) and \<open>DecodeError\<close> (line 347), each with the message of that
  error.
\<close>

datatype error =
    NoListen
  | NoPrivateKey
  | NoCertificate
  | CertificateMissing string
  | PrivateKeyMissing string
  | CaCertificateMissing string
  | ClientCertificateMissing string
  | NoClientID
  | NoDiscoveryURL
  | NoForwardingUsername
  | NoForwardingPassword
  | NoUpstream
  | UpstreamInvalid string
  | NoEncryptionKey
  | EncryptionKeyLength nat
  | NonTLSRedirection
  | StoreURLInvalid string
  | ClaimMatcherInvalid string string
  | InvalidResource string string
  | ResourceError string
  | KeyPairError string
  | FileError string
  | DecodeError string

text \<open>The verb \<open>%d\<close> of package \<open>fmt\<close>, for a number that is not negative.\<close>

fun fmt_d :: "nat \<Rightarrow> string" where
  "fmt_d n = (if n < 10 then [char_of (48 + n)]
              else fmt_d (n div 10) @ [char_of (48 + n mod 10)])"

text \<open>The message of each error: the method \<open>Error()\<close>.\<close>

fun Error :: "error \<Rightarrow> string" where
  "Error NoListen = ''you have not specified the listening interface''"
| "Error NoPrivateKey = ''you have not provided a private key''"
| "Error NoCertificate = ''you have not provided a certificate file''"
| "Error (CertificateMissing p) = ''the tls certificate '' @ p @ '' does not exist''"
| "Error (PrivateKeyMissing p) = ''the tls private key '' @ p @ '' does not exist''"
| "Error (CaCertificateMissing p) =
     ''the tls ca certificate file '' @ p @ '' does not exist''"
| "Error (ClientCertificateMissing p) =
     ''the tls client certificate '' @ p @ '' does not exist''"
| "Error NoClientID = ''you have not specified the client id''"
| "Error NoDiscoveryURL = ''you have not specified the discovery url''"
| "Error NoForwardingUsername = ''no forwarding username''"
| "Error NoForwardingPassword = ''no forwarding password''"
| "Error NoUpstream = ''you have not specified an upstream endpoint to proxy to''"
| "Error (UpstreamInvalid e) = ''the upstream endpoint is invalid, '' @ e"
| "Error NoEncryptionKey =
     ''you have not specified a encryption key for encoding the session state''"
| "Error (EncryptionKeyLength n) = ''the encryption key ('' @ fmt_d n @
     '') must be either 16 or 32 characters for AES-128/AES-256 selection''"
| "Error NonTLSRedirection =
     ''the cookie is set to secure but your redirection url is non-tls''"
| "Error (StoreURLInvalid e) = ''the store url is invalid, error: '' @ e"
| "Error (ClaimMatcherInvalid claim k) =
     ''the claim matcher: '' @ claim @ '' for claim: '' @ k @ '' is not a valid regex''"
| "Error (InvalidResource x e) = ''invalid resource '' @ x @ '', '' @ e"
| "Error (ResourceError e) = e"
| "Error (KeyPairError e) = e"
| "Error (FileError e) = e"
| "Error (DecodeError e) = e"

section \<open>What config.go calls\<close>

text \<open>
  config.go calls functions of the Go library, of the packages \<open>cli\<close> and \<open>yaml\<close>, and
  of other files of the repository. They are parameters of the model. An error of
  theirs is its message; \<open>None\<close> is the \<open>nil\<close> error.

  \<^item> \<open>fileExists\<close>: whether a path exists on disk (a helper of the repository).
  \<^item> \<open>url_Parse\<close>, \<open>regexp_Compile\<close>: the error of \<open>url.Parse\<close> and \<open>regexp.Compile\<close>.
  \<^item> \<open>IsValid\<close>: the error of \<open>Resource.IsValid\<close>.
  \<^item> \<open>decodeKeyPairs\<close>: the map decoded from a list of \<open>key=value\<close> strings, or the error.
  \<^item> \<open>Parse\<close>: the resource that \<open>newResource().Parse\<close> returns, or the error.

  The file loader has its own: \<open>os.IsPathSeparator\<close>; \<open>ReadFile\<close>, the content of a file
  or the error of \<open>ioutil.ReadFile\<close>; \<open>json_Unmarshal\<close> and \<open>yaml_Unmarshal\<close>, the error
  of the decoder and the configuration as the decoder leaves it.
\<close>

record Env =
  fileExists :: "string \<Rightarrow> bool"
  url_Parse :: "string \<Rightarrow> string option"
  regexp_Compile :: "string \<Rightarrow> string option"
  IsValid :: "Resource \<Rightarrow> string option"
  decodeKeyPairs :: "string list \<Rightarrow> string + gomap"
  Parse :: "string \<Rightarrow> string + Resource"

record Files =
  IsPathSeparator :: "char \<Rightarrow> bool"
  ReadFile :: "string \<Rightarrow> string + string"
  json_Unmarshal :: "string \<Rightarrow> Config \<Rightarrow> string option \<times> Config"
  yaml_Unmarshal :: "string \<Rightarrow> Config \<Rightarrow> string option \<times> Config"

section \<open>The validator\<close>

text \<open>The loop over the resources (config.go 120-124): the first error ends it.\<close>

fun validResources :: "Env \<Rightarrow> Resource list \<Rightarrow> error option" where
  "validResources env [] = None"
| "validResources env (resource # rest) =
     (case IsValid env resource of
        Some err \<Rightarrow> Some (ResourceError err)
      | None \<Rightarrow> validResources env rest)"

text \<open>The loop over the claim matchers (config.go 126-131).\<close>

fun validClaims :: "Env \<Rightarrow> (string \<times> string) list \<Rightarrow> error option" where
  "validClaims env [] = None"
| "validClaims env ((k, claim) # rest) =
     (case regexp_Compile env claim of
        Some err \<Rightarrow> Some (ClaimMatcherInvalid claim k)
      | None \<Rightarrow> validClaims env rest)"

text \<open>
  \<open>isValid\<close> has a pointer receiver: it returns its error together with the
  configuration as it leaves it. The definition is cut at the places where the source
  nests and after the one assignment: \<open>isValid_loops\<close> is lines 119-131,
  \<open>trimRedirectionURL\<close> lines 101-103, \<open>isValid_session\<close> lines 104-117 followed by the
  loops, \<open>isValid_verification\<close> the body of \<open>if !r.SkipTokenVerification\<close> (lines 95-117)
  followed by the loops, \<open>isValid_proxy\<close> the \<open>else\<close> branch (lines 87-131),
  \<open>isValid_forwarding\<close> lines 74-85.
\<close>

definition isValid_loops :: "Env \<Rightarrow> Config \<Rightarrow> error option \<times> Config" where
  "isValid_loops env r =
     (case validResources env (elems (Resources r)) of
        Some err \<Rightarrow> (Some err, r)
      | None \<Rightarrow>
          (case validClaims env (entries (MatchClaims r)) of
             Some err \<Rightarrow> (Some err, r)
           | None \<Rightarrow> (None, r)))"

definition trimRedirectionURL :: "Config \<Rightarrow> Config" where
  "trimRedirectionURL r =
     (if HasSuffix (RedirectionURL r) ''/''
      then r\<lparr>RedirectionURL := TrimSuffix (RedirectionURL r) ''/''\<rparr>
      else r)"

definition isValid_session :: "Env \<Rightarrow> Config \<Rightarrow> error option \<times> Config" where
  "isValid_session env r =
     (if EnableRefreshTokens r \<and> EncryptionKey r = ''''
      then (Some NoEncryptionKey, r)
      else if EnableRefreshTokens r
              \<and> (length (EncryptionKey r) \<noteq> 16 \<and> length (EncryptionKey r) \<noteq> 32)
      then (Some (EncryptionKeyLength (length (EncryptionKey r))), r)
      else if \<not> NoRedirects r \<and> SecureCookie r
              \<and> \<not> HasPrefix (RedirectionURL r) ''https''
      then (Some NonTLSRedirection, r)
      else if StoreURL r \<noteq> '''' then
        (case url_Parse env (StoreURL r) of
           Some err \<Rightarrow> (Some (StoreURLInvalid err), r)
         | None \<Rightarrow> isValid_loops env r)
      else isValid_loops env r)"

definition isValid_verification :: "Env \<Rightarrow> Config \<Rightarrow> error option \<times> Config" where
  "isValid_verification env r =
     (if ClientID r = '''' then (Some NoClientID, r)
      else if DiscoveryURL r = '''' then (Some NoDiscoveryURL, r)
      else isValid_session env (trimRedirectionURL r))"

definition isValid_proxy :: "Env \<Rightarrow> Config \<Rightarrow> error option \<times> Config" where
  "isValid_proxy env r =
     (if Upstream r = '''' then (Some NoUpstream, r)
      else case url_Parse env (Upstream r) of
        Some err \<Rightarrow> (Some (UpstreamInvalid err), r)
      | None \<Rightarrow>
          if \<not> SkipTokenVerification r then isValid_verification env r
          else isValid_loops env r)"

definition isValid_forwarding :: "Config \<Rightarrow> error option \<times> Config" where
  "isValid_forwarding r =
     (if ClientID r = '''' then (Some NoClientID, r)
      else if DiscoveryURL r = '''' then (Some NoDiscoveryURL, r)
      else if ForwardingUsername r = '''' then (Some NoForwardingUsername, r)
      else if ForwardingPassword r = '''' then (Some NoForwardingPassword, r)
      else (None, r))"

definition isValid :: "Env \<Rightarrow> Config \<Rightarrow> error option \<times> Config" where
  "isValid env r =
     (if Listen r = '''' then (Some NoListen, r)
      else if TLSCertificate r \<noteq> '''' \<and> TLSPrivateKey r = ''''
        then (Some NoPrivateKey, r)
      else if TLSPrivateKey r \<noteq> '''' \<and> TLSCertificate r = ''''
        then (Some NoCertificate, r)
      else if TLSCertificate r \<noteq> '''' \<and> \<not> fileExists env (TLSCertificate r)
        then (Some (CertificateMissing (TLSCertificate r)), r)
      else if TLSPrivateKey r \<noteq> '''' \<and> \<not> fileExists env (TLSPrivateKey r)
        then (Some (PrivateKeyMissing (TLSPrivateKey r)), r)
      else if TLSCaCertificate r \<noteq> '''' \<and> \<not> fileExists env (TLSCaCertificate r)
        then (Some (CaCertificateMissing (TLSCaCertificate r)), r)
      else if TLSClientCertificate r \<noteq> '''' \<and> \<not> fileExists env (TLSClientCertificate r)
        then (Some (ClientCertificateMissing (TLSClientCertificate r)), r)
      else if EnableForwarding r then isValid_forwarding r
      else isValid_proxy env r)"

section \<open>The command line\<close>

text \<open>
  \<open>cli.Context\<close>, as \<open>readOptions\<close> reads it: whether a flag was given (\<open>cx.IsSet\<close>) and
  the value the context returns for a flag name at each type. A flag that was not given
  has the default of its declaration.
\<close>

record Context =
  IsSet :: "string \<Rightarrow> bool"
  String :: "string \<Rightarrow> string"
  Bool :: "string \<Rightarrow> bool"
  BoolT :: "string \<Rightarrow> bool"
  Duration :: "string \<Rightarrow> Duration"
  StringSlice :: "string \<Rightarrow> string slice"

datatype outcome = Returned "error option" | Panicked

text \<open>
  Modelled from the spec: \<open>mergeMaps\<close> is not in config.go. The spec, 4.6: "given a
  destination and a source mapping, writes every source entry into the destination,
  source entries overriding on key collision; returns the mutated destination". The
  destination is a Go map, so a write to a \<open>nil\<close> destination panics (\<open>None\<close>).
\<close>

fun writeEntries :: "gomap \<Rightarrow> (string \<times> string) list \<Rightarrow> gomap option" where
  "writeEntries dest [] = Some dest"
| "writeEntries dest ((k, v) # rest) =
     (case assign dest k v of None \<Rightarrow> None | Some dest' \<Rightarrow> writeEntries dest' rest)"

definition mergeMaps :: "gomap \<Rightarrow> gomap \<Rightarrow> gomap option" where
  "mergeMaps dest source = writeEntries dest (entries source)"

text \<open>
  Lines 160-297 of \<open>readOptions\<close>: one statement of the source for each binding, in the
  order of the source. None of them can fail.
\<close>

definition readOptions_fields :: "Context \<Rightarrow> Config \<Rightarrow> Config" where
  "readOptions_fields cx config =
    (let
      config = (if String cx ''listen'' \<noteq> ''''
        then config\<lparr>Listen := String cx ''listen''\<rparr> else config);
      config = (if String cx ''client-secret'' \<noteq> ''''
        then config\<lparr>ClientSecret := String cx ''client-secret''\<rparr> else config);
      config = (if String cx ''client-id'' \<noteq> ''''
        then config\<lparr>ClientID := String cx ''client-id''\<rparr> else config);
      config = (if String cx ''discovery-url'' \<noteq> ''''
        then config\<lparr>DiscoveryURL := String cx ''discovery-url''\<rparr> else config);
      config = (if String cx ''upstream-url'' \<noteq> ''''
        then config\<lparr>Upstream := String cx ''upstream-url''\<rparr> else config);
      config = (if String cx ''revocation-url'' \<noteq> ''''
        then config\<lparr>RevocationEndpoint := String cx ''revocation-url''\<rparr> else config);
      config = (if IsSet cx ''upstream-keepalives''
        then config\<lparr>UpstreamKeepalives := Bool cx ''upstream-keepalives''\<rparr> else config);
      config = (if IsSet cx ''upstream-timeout''
        then config\<lparr>UpstreamTimeout := Duration cx ''upstream-timeout''\<rparr> else config);
      config = (if IsSet cx ''upstream-keepalive-timeout''
        then config\<lparr>UpstreamKeepaliveTimeout := Duration cx ''upstream-keepalive-timeout''\<rparr>
        else config);
      config = (if IsSet cx ''idle-duration''
        then config\<lparr>IdleDuration := Duration cx ''idle-duration''\<rparr> else config);
      config = (if IsSet cx ''skip-token-verification''
        then config\<lparr>SkipTokenVerification := Bool cx ''skip-token-verification''\<rparr>
        else config);
      config = (if IsSet cx ''skip-upstream-tls-verify''
        then config\<lparr>SkipUpstreamTLSVerify := Bool cx ''skip-upstream-tls-verify''\<rparr>
        else config);
      config = (if IsSet cx ''encryption-key''
        then config\<lparr>EncryptionKey := String cx ''encryption-key''\<rparr> else config);
      config = (if IsSet cx ''secure-cookie''
        then config\<lparr>SecureCookie := Bool cx ''secure-cookie''\<rparr> else config);
      config = (if IsSet cx ''cookie-access-name''
        then config\<lparr>CookieAccessName := String cx ''cookie-access-name''\<rparr> else config);
      config = (if IsSet cx ''cookie-refresh-name''
        then config\<lparr>CookieRefreshName := String cx ''cookie-refresh-name''\<rparr> else config);
      config = (if IsSet cx ''cookie-domain''
        then config\<lparr>CookieDomain := String cx ''cookie-domain''\<rparr> else config);
      config = (if IsSet cx ''add-claims''
        then config\<lparr>AddClaims :=
          append_slice (AddClaims config) (elems (StringSlice cx ''add-claims''))\<rparr>
        else config);
      config = (if String cx ''store-url'' \<noteq> ''''
        then config\<lparr>StoreURL := String cx ''store-url''\<rparr> else config);
      config = (if IsSet cx ''no-redirects''
        then config\<lparr>NoRedirects := Bool cx ''no-redirects''\<rparr> else config);
      config = (if String cx ''redirection-url'' \<noteq> ''''
        then config\<lparr>RedirectionURL := String cx ''redirection-url''\<rparr> else config);
      config = (if IsSet cx ''tls-cert''
        then config\<lparr>TLSCertificate := String cx ''tls-cert''\<rparr> else config);
      config = (if IsSet cx ''tls-private-key''
        then config\<lparr>TLSPrivateKey := String cx ''tls-private-key''\<rparr> else config);
      config = (if IsSet cx ''tls-ca-certificate''
        then config\<lparr>TLSCaCertificate := String cx ''tls-ca-certificate''\<rparr> else config);
      config = (if IsSet cx ''tls-client-certificate''
        then config\<lparr>TLSClientCertificate := String cx ''tls-client-certificate''\<rparr>
        else config);
      config = (if IsSet cx ''enable-metrics''
        then config\<lparr>EnableMetrics := Bool cx ''enable-metrics''\<rparr> else config);
      config = (if IsSet cx ''enable-proxy-protocol''
        then config\<lparr>EnableProxyProtocol := Bool cx ''enable-proxy-protocol''\<rparr>
        else config);
      config = (if IsSet cx ''enable-forwarding''
        then config\<lparr>EnableForwarding := Bool cx ''enable-forwarding''\<rparr> else config);
      config = (if IsSet cx ''enable-refresh-tokens''
        then config\<lparr>EnableRefreshTokens := Bool cx ''enable-refresh-tokens''\<rparr>
        else config);
      config = (if IsSet cx ''forwarding-username''
        then config\<lparr>ForwardingUsername := String cx ''forwarding-username''\<rparr>
        else config);
      config = (if IsSet cx ''forwarding-password''
        then config\<lparr>ForwardingPassword := String cx ''forwarding-password''\<rparr>
        else config);
      config = (if IsSet cx ''forwarding-domains''
        then config\<lparr>ForwardingDomains :=
          append_slice (ForwardingDomains config)
            (elems (StringSlice cx ''forwarding-domains''))\<rparr>
        else config);
      config = (if IsSet cx ''signin-page''
        then config\<lparr>SignInPage := String cx ''signin-page''\<rparr> else config);
      config = (if IsSet cx ''forbidden-page''
        then config\<lparr>ForbiddenPage := String cx ''forbidden-page''\<rparr> else config);
      config = (if IsSet cx ''enable-security-filter''
        then config\<lparr>EnableSecurityFilter := True\<rparr> else config);
      config = (if IsSet cx ''json-logging''
        then config\<lparr>LogJSONFormat := Bool cx ''json-logging''\<rparr> else config);
      config = (if IsSet cx ''log-requests''
        then config\<lparr>LogRequests := Bool cx ''log-requests''\<rparr> else config);
      config = (if IsSet cx ''verbose''
        then config\<lparr>Verbose := Bool cx ''verbose''\<rparr> else config);
      config = (if IsSet cx ''scope''
        then config\<lparr>Scopes := StringSlice cx ''scope''\<rparr> else config);
      config = (if IsSet cx ''hostname''
        then config\<lparr>Hostnames :=
          append_slice (Hostnames config) (elems (StringSlice cx ''hostname''))\<rparr>
        else config);
      config = (if IsSet cx ''cors-origins''
        then config\<lparr>CrossOrigin := (CrossOrigin config)\<lparr>Origins :=
          append_slice (Origins (CrossOrigin config))
            (elems (StringSlice cx ''cors-origins''))\<rparr>\<rparr>
        else config);
      config = (if IsSet cx ''cors-methods''
        then config\<lparr>CrossOrigin := (CrossOrigin config)\<lparr>CORS_Methods :=
          append_slice (CORS_Methods (CrossOrigin config))
            (elems (StringSlice cx ''cors-methods''))\<rparr>\<rparr>
        else config);
      config = (if IsSet cx ''cors-headers''
        then config\<lparr>CrossOrigin := (CrossOrigin config)\<lparr>CORS_Headers :=
          append_slice (CORS_Headers (CrossOrigin config))
            (elems (StringSlice cx ''cors-headers''))\<rparr>\<rparr>
        else config);
      config = (if IsSet cx ''cors-exposed-headers''
        then config\<lparr>CrossOrigin := (CrossOrigin config)\<lparr>ExposedHeaders :=
          append_slice (ExposedHeaders (CrossOrigin config))
            (elems (StringSlice cx ''cors-exposed-headers''))\<rparr>\<rparr>
        else config);
      config = (if IsSet cx ''cors-max-age''
        then config\<lparr>CrossOrigin := (CrossOrigin config)\<lparr>MaxAge :=
          Duration cx ''cors-max-age''\<rparr>\<rparr>
        else config);
      config = (if IsSet cx ''cors-credentials''
        then config\<lparr>CrossOrigin := (CrossOrigin config)\<lparr>Credentials :=
          BoolT cx ''cors-credentials''\<rparr>\<rparr>
        else config)
    in config)"

text \<open>
  Lines 298-304, 305-311 and 312-318 differ in the name of the flag only: each decodes
  the flag's strings and calls \<open>mergeMaps(config.MatchClaims, ...)\<close>. \<open>mergeMaps\<close> writes
  into the map that \<open>config.MatchClaims\<close> refers to.
\<close>

definition readOptions_keypairs :: "Env \<Rightarrow> Context \<Rightarrow> string \<Rightarrow> Config \<Rightarrow> outcome \<times> Config" where
  "readOptions_keypairs env cx name config =
     (if IsSet cx name then
        (case decodeKeyPairs env (elems (StringSlice cx name)) of
           Inl err \<Rightarrow> (Returned (Some (KeyPairError err)), config)
         | Inr pairs \<Rightarrow>
             (case mergeMaps (MatchClaims config) pairs of
                None \<Rightarrow> (Panicked, config)
              | Some m \<Rightarrow> (Returned None, config\<lparr>MatchClaims := m\<rparr>)))
      else (Returned None, config))"

text \<open>The loop of lines 320-326.\<close>

fun readOptions_resources :: "Env \<Rightarrow> string list \<Rightarrow> Config \<Rightarrow> outcome \<times> Config" where
  "readOptions_resources env [] config = (Returned None, config)"
| "readOptions_resources env (x # rest) config =
     (case Parse env x of
        Inl err \<Rightarrow> (Returned (Some (InvalidResource x err)), config)
      | Inr resource \<Rightarrow>
          readOptions_resources env rest
            (config\<lparr>Resources := append_slice (Resources config) [resource]\<rparr>))"

text \<open>
  \<open>andThen\<close> is the flow of control between two statements: the second one runs on the
  configuration the first one left, unless the first one returned an error or panicked.
\<close>

definition andThen ::
  "outcome \<times> Config \<Rightarrow> (Config \<Rightarrow> outcome \<times> Config) \<Rightarrow> outcome \<times> Config" where
  "andThen res next =
     (case fst res of
        Returned None \<Rightarrow> next (snd res)
      | Returned (Some err) \<Rightarrow> res
      | Panicked \<Rightarrow> res)"

text \<open>Lines 298-318: the three flags of key pairs, in the order of the source.\<close>

definition readOptions_maps :: "Env \<Rightarrow> Context \<Rightarrow> Config \<Rightarrow> outcome \<times> Config" where
  "readOptions_maps env cx config =
     andThen (readOptions_keypairs env cx ''tag'' config)
       (\<lambda>config. andThen (readOptions_keypairs env cx ''match-claims'' config)
         (\<lambda>config. readOptions_keypairs env cx ''headers'' config))"

text \<open>
  \<open>readOptions\<close> (config.go 159-330) writes through the pointer \<open>config\<close>: the result is
  what it returns together with the configuration as it leaves it.
\<close>

definition readOptions :: "Env \<Rightarrow> Context \<Rightarrow> Config \<Rightarrow> outcome \<times> Config" where
  "readOptions env cx config =
     andThen (readOptions_maps env cx (readOptions_fields cx config))
       (\<lambda>config.
          if IsSet cx ''resource''
          then readOptions_resources env (elems (StringSlice cx ''resource'')) config
          else (Returned None, config))"

section \<open>The file loader\<close>

text \<open>
  \<open>filepath.Ext\<close> of the Go library: "the suffix beginning at the final dot in the final
  element of path; it is empty if there is no dot". Its loop runs \<open>i\<close> from
  \<open>len(path) - 1\<close> down while \<open>i >= 0\<close> and \<open>path[i]\<close> is no separator, and returns
  \<open>path[i:]\<close> at the first dot; \<open>Ext_loop\<close> takes \<open>i + 1\<close>.
\<close>

fun Ext_loop :: "Files \<Rightarrow> string \<Rightarrow> nat \<Rightarrow> string" where
  "Ext_loop fs path 0 = ''''"
| "Ext_loop fs path (Suc i) =
     (if IsPathSeparator fs (path ! i) then ''''
      else if path ! i = CHR ''.'' then drop i path
      else Ext_loop fs path i)"

definition filepath_Ext :: "Files \<Rightarrow> string \<Rightarrow> string" where
  "filepath_Ext fs path = Ext_loop fs path (length path)"

text \<open>\<open>readConfigFile\<close> (config.go 333-348).\<close>

definition readConfigFile :: "Files \<Rightarrow> string \<Rightarrow> Config \<Rightarrow> error option \<times> Config" where
  "readConfigFile fs filename config =
     (case ReadFile fs filename of
        Inl err \<Rightarrow> (Some (FileError err), config)
      | Inr content \<Rightarrow>
          (let ext = filepath_Ext fs filename;
               res = (if ext = ''json'' then json_Unmarshal fs content config
                      else yaml_Unmarshal fs content config)
           in (map_option DecodeError (fst res), snd res)))"

section \<open>The helpers of the repository that config.go calls\<close>

text \<open>
  \<open>decodeKeyPairs\<close>, \<open>Resource.Parse\<close> and \<open>Resource.IsValid\<close> are in other files of the
  repository. The theorems below hold for every \<^typ>\<open>Env\<close>; the definitions of this
  section follow the spec and serve where a theorem is applied to a concrete input.
\<close>

fun split_on :: "char \<Rightarrow> string \<Rightarrow> string list" where
  "split_on c [] = [[]]"
| "split_on c (x # xs) =
     (if x = c then [] # split_on c xs
      else (case split_on c xs of [] \<Rightarrow> [[x]] | w # ws \<Rightarrow> (x # w) # ws))"

definition trim :: "string \<Rightarrow> string" where
  "trim s = rev (dropWhile (\<lambda>c. c = CHR '' '') (rev (dropWhile (\<lambda>c. c = CHR '' '') s)))"

text \<open>
  Modelled from the spec: \<open>decodeKeyPairs\<close> is not in config.go. The spec, 4.6: "given a
  sequence of \<open>key=value\<close> strings, returns a mapping; fails with an "invalid key-pair"
  error on any entry lacking the \<open>=\<close> separator". The key is what stands before the
  first \<open>=\<close>, the value what follows it.
\<close>

fun decodeEntries :: "string list \<Rightarrow> (string \<times> string) list \<Rightarrow> string + gomap" where
  "decodeEntries [] kp = Inr (Map kp)"
| "decodeEntries (x # rest) kp =
     (if CHR ''='' \<in> set x
      then decodeEntries rest
             (AList.update (takeWhile (\<lambda>c. c \<noteq> CHR ''='') x)
                (tl (dropWhile (\<lambda>c. c \<noteq> CHR ''='') x)) kp)
      else Inl (''invalid key-pair: '' @ x))"

definition spec_decodeKeyPairs :: "string list \<Rightarrow> string + gomap" where
  "spec_decodeKeyPairs list = decodeEntries list []"

text \<open>
  Modelled from the spec: \<open>newResource\<close> and \<open>Resource.Parse\<close> are not in config.go. The
  spec, 4.5 and 6: the descriptor is \<open>uri=<pattern>|methods=<M1,M2,...>|roles=<R1,R2,...>\<close>,
  "pipe-delimited \<open>key=value\<close> segments (recognized keys: URI pattern, comma-separated
  methods, comma-separated roles, and optionally a "white-listed"/unsecured flag)",
  "whitespace-insensitive around \<open>|\<close> and \<open>=\<close>"; it "fails with a descriptive parse error
  on malformed segments or an unrecognized key". \<open>methods\<close> and \<open>roles\<close> may be absent.
\<close>

fun parseSegments :: "string list \<Rightarrow> Resource \<Rightarrow> string + Resource" where
  "parseSegments [] r = Inr r"
| "parseSegments (seg # rest) r =
     (case split_on CHR ''='' seg of
        [k, v] \<Rightarrow>
          (let key = trim k; val = trim v in
           if key = ''uri'' then parseSegments rest (r\<lparr>URL := val\<rparr>)
           else if key = ''methods''
             then parseSegments rest (r\<lparr>Methods := Slice (split_on CHR '','' val)\<rparr>)
           else if key = ''roles''
             then parseSegments rest (r\<lparr>Roles := Slice (split_on CHR '','' val)\<rparr>)
           else if key = ''white-listed'' then
             (if val = ''true'' then parseSegments rest (r\<lparr>WhiteListed := True\<rparr>)
              else if val = ''false'' then parseSegments rest (r\<lparr>WhiteListed := False\<rparr>)
              else Inl ''the value of white-listed is not a boolean'')
           else Inl (''unrecognized key '' @ key))
      | _ \<Rightarrow> Inl (''malformed segment '' @ seg))"

definition spec_Parse :: "string \<Rightarrow> string + Resource" where
  "spec_Parse x =
     parseSegments (split_on CHR ''|'' x)
       \<lparr>URL = '''', Methods = NilSlice, Roles = NilSlice, WhiteListed = False\<rparr>"

text \<open>
  Modelled from the spec: \<open>Resource.IsValid\<close> is not in config.go. The spec, 4.5:
  "\<open>Resource.IsValid\<close> fails when the URI pattern is empty".
\<close>

definition spec_IsValid :: "Resource \<Rightarrow> string option" where
  "spec_IsValid r = (if URL r = '''' then Some ''the resource has no uri'' else None)"

section \<open>A machine and a command line\<close>

text \<open>
  The environment that the concrete inputs below run in. Its disk holds two files.
  Its \<open>url.Parse\<close> rejects \<open>:\<close> and its \<open>regexp.Compile\<close> rejects \<open>(\<close>, as the Go library
  does; they accept every other string, which is what the Go library does with each
  string that is passed to them below.
\<close>

definition sampleEnv :: Env where
  "sampleEnv = \<lparr>
     fileExists = (\<lambda>p. p = ''/etc/proxy/tls.crt'' \<or> p = ''/etc/proxy/tls.key''),
     url_Parse = (\<lambda>u. if u = '':'' then Some ''parse :: missing protocol scheme'' else None),
     regexp_Compile =
       (\<lambda>p. if p = ''('' then Some ''error parsing regexp: missing closing ): `(`'' else None),
     IsValid = spec_IsValid,
     decodeKeyPairs = spec_decodeKeyPairs,
     Parse = spec_Parse
   \<rparr>"

text \<open>
  The flags that \<open>getOptions\<close> (config.go 351-580) declares with \<open>cli.StringFlag\<close> and
  with \<open>cli.StringSliceFlag\<close>.
\<close>

definition stringFlags :: "string list" where
  "stringFlags = [''config'', ''listen'', ''client-secret'', ''client-id'', ''discovery-url'',
     ''redirection-url'', ''revocation-url'', ''store-url'', ''upstream-url'',
     ''cookie-access-name'', ''cookie-refresh-name'', ''encryption-key'',
     ''forwarding-username'', ''forwarding-password'', ''tls-cert'', ''tls-private-key'',
     ''tls-ca-certificate'', ''tls-client-certificate'', ''signin-page'', ''forbidden-page'']"

definition stringSliceFlags :: "string list" where
  "stringSliceFlags = [''scope'', ''cookie-domain'', ''hostname'', ''forwarding-domains'',
     ''match-claims'', ''add-claims'', ''resource'', ''headers'', ''tag'', ''cors-origins'',
     ''cors-methods'', ''cors-headers'', ''cors-exposes-headers'']"

text \<open>
  \<open>cx.String\<close> returns the value of a flag as the flag prints it. For a flag of strings
  that is the slice as \<open>fmt\<close> prints it: the strings between brackets, with a space
  between two of them.
\<close>

fun spaced :: "string list \<Rightarrow> string" where
  "spaced [] = []"
| "spaced [v] = v"
| "spaced (v # vs) = v @ '' '' @ spaced vs"

definition printed :: "string list \<Rightarrow> string" where
  "printed vs = ''['' @ spaced vs @ '']''"

text \<open>
  The context of a command line without any flag: nothing is set, and each accessor
  returns the default that \<open>getOptions\<close> declares for the flag (a \<open>BoolTFlag\<close> is \<open>true\<close>
  unless given). \<open>String\<close> is given for the flags of strings and of string slices; no
  statement of config.go reads a flag of another type with \<open>cx.String\<close>, and the empty
  string stands there.
\<close>

definition noFlags :: Context where
  "noFlags = \<lparr>
     IsSet = (\<lambda>name. False),
     String = (\<lambda>name.
       if name = ''listen'' then ''127.0.0.1:3000''
       else if name = ''revocation-url'' then ''/oauth2/revoke''
       else if name = ''cookie-access-name'' then ''kc-access''
       else if name = ''cookie-refresh-name'' then ''kc-state''
       else if name \<in> set stringSliceFlags then printed []
       else ''''),
     Bool = (\<lambda>name. name = ''upstream-keepalives'' \<or> name = ''secure-cookie''
       \<or> name = ''skip-upstream-tls-verify'' \<or> name = ''json-logging''
       \<or> name = ''log-requests''),
     BoolT = (\<lambda>name. name = ''upstream-keepalives'' \<or> name = ''secure-cookie''
       \<or> name = ''skip-upstream-tls-verify'' \<or> name = ''json-logging''
       \<or> name = ''log-requests''),
     Duration = (\<lambda>name.
       if name = ''upstream-timeout'' \<or> name = ''upstream-keepalive-timeout''
       then 10 * Second else 0),
     StringSlice = (\<lambda>name. NilSlice)
   \<rparr>"

text \<open>
  \<open>--flag=value\<close> added to a command line, for a flag that \<open>getOptions\<close> declares with
  \<open>cli.StringFlag\<close>. Another name is no such option: the context stays as it is.
\<close>

definition withString :: "string \<Rightarrow> string \<Rightarrow> Context \<Rightarrow> Context" where
  "withString flag v cx =
     (if flag \<in> set stringFlags
      then cx\<lparr>IsSet := (IsSet cx)(flag := True), String := (String cx)(flag := v)\<rparr>
      else cx)"

text \<open>
  \<open>--flag=v\<close> for each string \<open>v\<close> of a list that is not empty, for a flag that
  \<open>getOptions\<close> declares with \<open>cli.StringSliceFlag\<close> and that the command line has not
  given before. \<open>cx.StringSlice\<close> returns the list and \<open>cx.String\<close> the printed list.
\<close>

definition withStrings :: "string \<Rightarrow> string list \<Rightarrow> Context \<Rightarrow> Context" where
  "withStrings flag vs cx =
     (if flag \<in> set stringSliceFlags \<and> vs \<noteq> []
      then cx\<lparr>IsSet := (IsSet cx)(flag := True),
              String := (String cx)(flag := printed vs),
              StringSlice := (StringSlice cx)(flag := Slice vs)\<rparr>
      else cx)"

text \<open>
  Three configurations for the concrete inputs: a reverse proxy that passes the
  validator on the sample machine, a forwarding proxy that passes it, and a resource
  without a URI.
\<close>

definition proxyConfig :: Config where
  "proxyConfig = newDefaultConfig\<lparr>
     Upstream := ''http://127.0.0.1:8080'',
     ClientID := ''proxy'',
     DiscoveryURL := ''https://sso.example.com/auth/realms/demo'',
     RedirectionURL := ''https://proxy.example.com/''\<rparr>"

definition forwardingConfig :: Config where
  "forwardingConfig = newDefaultConfig\<lparr>
     EnableForwarding := True,
     ClientID := ''proxy'',
     DiscoveryURL := ''https://sso.example.com/auth/realms/demo'',
     ForwardingUsername := ''robot'',
     ForwardingPassword := ''secret''\<rparr>"

definition noURI :: Resource where
  "noURI = \<lparr>URL = '''', Methods = Slice [''GET''], Roles = NilSlice, WhiteListed = False\<rparr>"

definition adminResource :: Resource where
  "adminResource = \<lparr>URL = ''/admin'', Methods = Slice [''GET'', ''POST''],
     Roles = Slice [''admin''], WhiteListed = False\<rparr>"

section \<open>Properties of the default configuration\<close>

text \<open>
  Claim C7, as amended. \<open>newDefaultConfig\<close> returns the listen address
  \<open>127.0.0.1:3000\<close>, both upstream timeouts of 10 seconds, the cookie names \<open>kc-access\<close>
  and \<open>kc-state\<close>, secure cookies and no verification of the upstream TLS. Its three maps
  (\<open>TagData\<close>, \<open>MatchClaims\<close>, \<open>Headers\<close>) are empty maps that are not \<open>nil\<close>. Its
  sequences are left at the zero value: every one of them is the \<open>nil\<close> slice, which has
  no element. \<open>newDefaultConfig\<close> takes no argument and reads no state, so it is a
  constant: it cannot fail and has no effect.
\<close>

theorem newDefaultConfig_values:
  "Listen newDefaultConfig = ''127.0.0.1:3000''
   \<and> UpstreamTimeout newDefaultConfig = 10 * Second
   \<and> UpstreamKeepaliveTimeout newDefaultConfig = 10 * Second
   \<and> CookieAccessName newDefaultConfig = ''kc-access''
   \<and> CookieRefreshName newDefaultConfig = ''kc-state''
   \<and> SecureCookie newDefaultConfig
   \<and> SkipUpstreamTLSVerify newDefaultConfig
   \<and> TagData newDefaultConfig = Map []
   \<and> MatchClaims newDefaultConfig = Map []
   \<and> Headers newDefaultConfig = Map []
   \<and> Resources newDefaultConfig = NilSlice
   \<and> Scopes newDefaultConfig = NilSlice
   \<and> AddClaims newDefaultConfig = NilSlice
   \<and> Hostnames newDefaultConfig = NilSlice
   \<and> ForwardingDomains newDefaultConfig = NilSlice
   \<and> Origins (CrossOrigin newDefaultConfig) = NilSlice
   \<and> CORS_Methods (CrossOrigin newDefaultConfig) = NilSlice
   \<and> CORS_Headers (CrossOrigin newDefaultConfig) = NilSlice
   \<and> ExposedHeaders (CrossOrigin newDefaultConfig) = NilSlice"
  by (simp add: newDefaultConfig_def)

text \<open>
  The claim as it was written says that no sequence of the default configuration is
  \<open>nil\<close>. The sequence of resources is.
\<close>

theorem newDefaultConfig_nil_slice:
  "Resources newDefaultConfig = NilSlice"
  by (simp add: newDefaultConfig_def)

section \<open>Properties of the validator\<close>

subsection \<open>The two loops\<close>

lemma validResources_None:
  "(validResources env rs = None) = (\<forall>r\<in>set rs. IsValid env r = None)"
  by (induction rs) (auto split: option.splits)

lemma validClaims_None:
  "(validClaims env kvs = None) = (\<forall>kv\<in>set kvs. regexp_Compile env (snd kv) = None)"
  by (induction kvs) (auto split: option.splits)

lemma validResources_Some:
  "validResources env rs = Some e \<Longrightarrow> \<exists>m. e = ResourceError m"
  by (induction rs) (auto split: option.splits)

lemma validClaims_Some:
  "validClaims env kvs = Some e \<Longrightarrow> \<exists>c k. e = ClaimMatcherInvalid c k"
  by (induction kvs) (auto split: option.splits)

lemma isValid_loops_Some:
  "fst (isValid_loops env r) = Some e \<Longrightarrow>
     (\<exists>m. e = ResourceError m) \<or> (\<exists>c k. e = ClaimMatcherInvalid c k)"
  by (auto simp: isValid_loops_def split: option.splits
        dest: validResources_Some validClaims_Some)

lemma isValid_loops_None:
  "(fst (isValid_loops env r) = None) =
     (validResources env (elems (Resources r)) = None
      \<and> validClaims env (entries (MatchClaims r)) = None)"
  by (simp add: isValid_loops_def split: option.splits)

subsection \<open>Which errors each part can return\<close>

lemma isValid_session_Some:
  "fst (isValid_session env r) = Some e \<Longrightarrow>
     (e = NoEncryptionKey \<and> EnableRefreshTokens r \<and> EncryptionKey r = '''')
     \<or> (e = EncryptionKeyLength (length (EncryptionKey r)) \<and> EnableRefreshTokens r
         \<and> length (EncryptionKey r) \<noteq> 16 \<and> length (EncryptionKey r) \<noteq> 32)
     \<or> e = NonTLSRedirection \<or> (\<exists>m. e = StoreURLInvalid m)
     \<or> (\<exists>m. e = ResourceError m) \<or> (\<exists>c k. e = ClaimMatcherInvalid c k)"
  unfolding isValid_session_def
  by (simp split: if_splits option.splits; blast dest: isValid_loops_Some)

lemma trimRedirectionURL_eq:
  "trimRedirectionURL r = r\<lparr>RedirectionURL := TrimSuffix (RedirectionURL r) ''/''\<rparr>"
  by (simp add: trimRedirectionURL_def TrimSuffix_def)

lemma isValid_verification_Some:
  "fst (isValid_verification env r) = Some e \<Longrightarrow>
     e = NoClientID \<or> e = NoDiscoveryURL
     \<or> (e = NoEncryptionKey \<and> EnableRefreshTokens r \<and> EncryptionKey r = '''')
     \<or> (e = EncryptionKeyLength (length (EncryptionKey r)) \<and> EnableRefreshTokens r
         \<and> length (EncryptionKey r) \<noteq> 16 \<and> length (EncryptionKey r) \<noteq> 32)
     \<or> e = NonTLSRedirection \<or> (\<exists>m. e = StoreURLInvalid m)
     \<or> (\<exists>m. e = ResourceError m) \<or> (\<exists>c k. e = ClaimMatcherInvalid c k)"
proof (cases "ClientID r = '''' \<or> DiscoveryURL r = ''''")
  case True
  assume "fst (isValid_verification env r) = Some e"
  with True show ?thesis by (auto simp: isValid_verification_def split: if_splits)
next
  case False
  assume "fst (isValid_verification env r) = Some e"
  with False have "fst (isValid_session env (trimRedirectionURL r)) = Some e"
    by (simp add: isValid_verification_def)
  from isValid_session_Some [OF this] show ?thesis
    by (simp add: trimRedirectionURL_eq)
qed

lemma isValid_proxy_Some:
  "fst (isValid_proxy env r) = Some e \<Longrightarrow>
     e = NoUpstream \<or> (\<exists>m. e = UpstreamInvalid m)
     \<or> e = NoClientID \<or> e = NoDiscoveryURL
     \<or> (e = NoEncryptionKey \<and> EnableRefreshTokens r \<and> EncryptionKey r = '''')
     \<or> (e = EncryptionKeyLength (length (EncryptionKey r)) \<and> EnableRefreshTokens r
         \<and> length (EncryptionKey r) \<noteq> 16 \<and> length (EncryptionKey r) \<noteq> 32)
     \<or> e = NonTLSRedirection \<or> (\<exists>m. e = StoreURLInvalid m)
     \<or> (\<exists>m. e = ResourceError m) \<or> (\<exists>c k. e = ClaimMatcherInvalid c k)"
  unfolding isValid_proxy_def
  by (simp split: if_splits option.splits;
      blast dest: isValid_loops_Some isValid_verification_Some)

lemma isValid_forwarding_Some:
  "fst (isValid_forwarding r) = Some e \<Longrightarrow>
     e = NoClientID \<or> e = NoDiscoveryURL \<or> e = NoForwardingUsername
     \<or> e = NoForwardingPassword"
  unfolding isValid_forwarding_def by (simp split: if_splits; blast)

lemma isValid_tail_Some:
  assumes "fst (isValid_forwarding r) = Some e \<or> fst (isValid_proxy env r) = Some e"
  shows "e \<noteq> NoListen \<and> e \<noteq> NoPrivateKey \<and> e \<noteq> NoCertificate
         \<and> (\<forall>p. e \<noteq> CertificateMissing p) \<and> (\<forall>p. e \<noteq> PrivateKeyMissing p)
         \<and> (\<forall>p. e \<noteq> CaCertificateMissing p) \<and> (\<forall>p. e \<noteq> ClientCertificateMissing p)"
  using assms isValid_forwarding_Some [of r e] isValid_proxy_Some [of env r e]
  by (elim disjE) auto

subsection \<open>What the validator writes\<close>

lemma snd_isValid_loops: "snd (isValid_loops env r) = r"
  by (simp add: isValid_loops_def split: option.splits)

lemma snd_isValid_forwarding: "snd (isValid_forwarding r) = r"
  by (simp add: isValid_forwarding_def)

lemma snd_isValid_session: "snd (isValid_session env r) = r"
  by (simp add: isValid_session_def snd_isValid_loops split: option.splits)

lemma TrimSuffix_slash:
  "TrimSuffix s ''/'' = (if s \<noteq> '''' \<and> last s = CHR ''/'' then butlast s else s)"
proof (cases s rule: rev_cases)
  case Nil
  then show ?thesis by (simp add: TrimSuffix_def HasSuffix_def)
next
  case (snoc ys y)
  then show ?thesis by (simp add: TrimSuffix_def HasSuffix_def)
qed

lemma snd_isValid_proxy:
  "snd (isValid_proxy env r) =
     (if Upstream r \<noteq> '''' \<and> url_Parse env (Upstream r) = None
         \<and> \<not> SkipTokenVerification r \<and> ClientID r \<noteq> '''' \<and> DiscoveryURL r \<noteq> ''''
      then trimRedirectionURL r else r)"
  by (simp add: isValid_proxy_def isValid_verification_def snd_isValid_session
        snd_isValid_loops split: option.splits)

text \<open>
  Claim C8, as amended. \<open>isValid\<close> writes to the configuration on one path only: when
  every check of lines 51-71 passes, forwarding is off, \<open>Upstream\<close> is not empty and
  parses, token verification is not skipped, and \<open>ClientID\<close> and \<open>DiscoveryURL\<close> are not
  empty. On that path it leaves the configuration it was given with one trailing \<open>/\<close>
  taken off \<open>RedirectionURL\<close> (nothing changes if \<open>RedirectionURL\<close> does not end in \<open>/\<close>),
  whether the checks after line 103 succeed or fail. On every other path it leaves the
  configuration exactly as it was given, a trailing \<open>/\<close> included. No other field is
  ever written.
\<close>

theorem isValid_writes:
  "snd (isValid env r) =
     (if Listen r \<noteq> ''''
         \<and> ((TLSCertificate r = '''' \<and> TLSPrivateKey r = '''')
            \<or> (TLSCertificate r \<noteq> '''' \<and> TLSPrivateKey r \<noteq> ''''
                \<and> fileExists env (TLSCertificate r) \<and> fileExists env (TLSPrivateKey r)))
         \<and> (TLSCaCertificate r = '''' \<or> fileExists env (TLSCaCertificate r))
         \<and> (TLSClientCertificate r = '''' \<or> fileExists env (TLSClientCertificate r))
         \<and> \<not> EnableForwarding r
         \<and> Upstream r \<noteq> '''' \<and> url_Parse env (Upstream r) = None
         \<and> \<not> SkipTokenVerification r
         \<and> ClientID r \<noteq> '''' \<and> DiscoveryURL r \<noteq> ''''
      then r\<lparr>RedirectionURL :=
             (if RedirectionURL r \<noteq> '''' \<and> last (RedirectionURL r) = CHR ''/''
              then butlast (RedirectionURL r) else RedirectionURL r)\<rparr>
      else r)"
  (is "_ = (if ?reached then ?trimmed else _)")
proof -
  define front where "front \<longleftrightarrow> Listen r \<noteq> ''''
      \<and> ((TLSCertificate r = '''' \<and> TLSPrivateKey r = '''')
         \<or> (TLSCertificate r \<noteq> '''' \<and> TLSPrivateKey r \<noteq> ''''
             \<and> fileExists env (TLSCertificate r) \<and> fileExists env (TLSPrivateKey r)))
      \<and> (TLSCaCertificate r = '''' \<or> fileExists env (TLSCaCertificate r))
      \<and> (TLSClientCertificate r = '''' \<or> fileExists env (TLSClientCertificate r))"
  have stop: "snd (isValid env r) = r" if "\<not> front"
    using that unfolding isValid_def front_def by auto
  have pass: "isValid env r =
      (if EnableForwarding r then isValid_forwarding r else isValid_proxy env r)" if front
    using that unfolding isValid_def front_def by auto
  have trim: "trimRedirectionURL r = ?trimmed"
    by (simp only: trimRedirectionURL_eq TrimSuffix_slash)
  show ?thesis
  proof (cases front)
    case False
    then have no: "\<not> ?reached" unfolding front_def by blast
    show ?thesis by (simp only: if_not_P [OF no] stop [OF False])
  next
    case True
    then have reached: "?reached =
        (\<not> EnableForwarding r \<and> Upstream r \<noteq> '''' \<and> url_Parse env (Upstream r) = None
         \<and> \<not> SkipTokenVerification r \<and> ClientID r \<noteq> '''' \<and> DiscoveryURL r \<noteq> '''')"
      unfolding front_def by blast
    have "snd (isValid env r) = (if ?reached then trimRedirectionURL r else r)"
      by (simp only: reached)
         (simp add: pass [OF True] snd_isValid_forwarding snd_isValid_proxy)
    then show ?thesis by (simp only: trim)
  qed
qed

text \<open>
  The theorem at the reverse proxy of the sample machine, whose \<open>RedirectionURL\<close> ends in
  \<open>/\<close>, and at the forwarding proxy with the same \<open>RedirectionURL\<close>.
\<close>

theorem isValid_writes_witness:
  "RedirectionURL proxyConfig = ''https://proxy.example.com/''
   \<and> snd (isValid sampleEnv proxyConfig)
       = proxyConfig\<lparr>RedirectionURL := ''https://proxy.example.com''\<rparr>
   \<and> EnableForwarding (forwardingConfig\<lparr>RedirectionURL := ''https://proxy.example.com/''\<rparr>)
   \<and> snd (isValid sampleEnv (forwardingConfig\<lparr>RedirectionURL := ''https://proxy.example.com/''\<rparr>))
       = forwardingConfig\<lparr>RedirectionURL := ''https://proxy.example.com/''\<rparr>"
  using isValid_writes [where env = sampleEnv and r = proxyConfig]
    isValid_writes [where env = sampleEnv
      and r = "forwardingConfig\<lparr>RedirectionURL := ''https://proxy.example.com/''\<rparr>"]
  by (simp add: proxyConfig_def forwardingConfig_def newDefaultConfig_def sampleEnv_def)

text \<open>
  The claim as it was written: a trailing \<open>/\<close> of \<open>RedirectionURL\<close> is trimmed when one is
  present. The forwarding proxy passes the validator and keeps it.
\<close>

theorem isValid_writes_counterexample:
  "last (RedirectionURL (forwardingConfig\<lparr>RedirectionURL := ''https://proxy.example.com/''\<rparr>))
     = CHR ''/''
   \<and> fst (isValid sampleEnv (forwardingConfig\<lparr>RedirectionURL := ''https://proxy.example.com/''\<rparr>))
     = None
   \<and> RedirectionURL (snd (isValid sampleEnv
       (forwardingConfig\<lparr>RedirectionURL := ''https://proxy.example.com/''\<rparr>)))
     = ''https://proxy.example.com/''"
  by (simp add: isValid_def isValid_forwarding_def forwardingConfig_def newDefaultConfig_def
        sampleEnv_def)

text \<open>
  Claim C10. A configuration with exactly one of \<open>TLSCertificate\<close> and \<open>TLSPrivateKey\<close>
  makes \<open>isValid\<close> return an error. With neither of them, or with both and both files on
  disk, \<open>isValid\<close> returns none of the four errors of that invariant (lines 55, 58, 61
  and 64).
\<close>

theorem isValid_tls_pair:
  "((TLSCertificate r \<noteq> '''' \<and> TLSPrivateKey r = '''')
      \<or> (TLSCertificate r = '''' \<and> TLSPrivateKey r \<noteq> '''')
     \<longrightarrow> (\<exists>e. fst (isValid env r) = Some e))
   \<and> ((TLSCertificate r = '''' \<and> TLSPrivateKey r = '''')
      \<or> (TLSCertificate r \<noteq> '''' \<and> TLSPrivateKey r \<noteq> ''''
          \<and> fileExists env (TLSCertificate r) \<and> fileExists env (TLSPrivateKey r))
     \<longrightarrow> fst (isValid env r) \<noteq> Some NoPrivateKey
         \<and> fst (isValid env r) \<noteq> Some NoCertificate
         \<and> (\<forall>p. fst (isValid env r) \<noteq> Some (CertificateMissing p))
         \<and> (\<forall>p. fst (isValid env r) \<noteq> Some (PrivateKeyMissing p)))"
proof (intro conjI impI)
  assume "(TLSCertificate r \<noteq> '''' \<and> TLSPrivateKey r = '''')
      \<or> (TLSCertificate r = '''' \<and> TLSPrivateKey r \<noteq> '''')"
  then show "\<exists>e. fst (isValid env r) = Some e"
    unfolding isValid_def by auto
next
  assume ok: "(TLSCertificate r = '''' \<and> TLSPrivateKey r = '''')
      \<or> (TLSCertificate r \<noteq> '''' \<and> TLSPrivateKey r \<noteq> ''''
          \<and> fileExists env (TLSCertificate r) \<and> fileExists env (TLSPrivateKey r))"
  have *: "e \<noteq> NoPrivateKey \<and> e \<noteq> NoCertificate \<and> (\<forall>p. e \<noteq> CertificateMissing p)
      \<and> (\<forall>p. e \<noteq> PrivateKeyMissing p)" if "fst (isValid env r) = Some e" for e
  proof -
    from that ok have "e = NoListen \<or> (\<exists>p. e = CaCertificateMissing p)
        \<or> (\<exists>p. e = ClientCertificateMissing p)
        \<or> fst (isValid_forwarding r) = Some e \<or> fst (isValid_proxy env r) = Some e"
      unfolding isValid_def by (simp split: if_splits; blast)
    then show ?thesis using isValid_tail_Some [of r e env] by blast
  qed
  show "fst (isValid env r) \<noteq> Some NoPrivateKey" using * by blast
  show "fst (isValid env r) \<noteq> Some NoCertificate" using * by blast
  show "\<forall>p. fst (isValid env r) \<noteq> Some (CertificateMissing p)" using * by blast
  show "\<forall>p. fst (isValid env r) \<noteq> Some (PrivateKeyMissing p)" using * by blast
qed

text \<open>
  The theorem at two configurations on the sample machine: the default configuration
  with a certificate and no key, and the default configuration with both files.
\<close>

theorem isValid_tls_pair_witness:
  "TLSCertificate (newDefaultConfig\<lparr>TLSCertificate := ''/etc/proxy/tls.crt''\<rparr>) \<noteq> ''''
   \<and> TLSPrivateKey (newDefaultConfig\<lparr>TLSCertificate := ''/etc/proxy/tls.crt''\<rparr>) = ''''
   \<and> (\<exists>e. fst (isValid sampleEnv
         (newDefaultConfig\<lparr>TLSCertificate := ''/etc/proxy/tls.crt''\<rparr>)) = Some e)
   \<and> fileExists sampleEnv ''/etc/proxy/tls.crt''
   \<and> fileExists sampleEnv ''/etc/proxy/tls.key''
   \<and> fst (isValid sampleEnv (newDefaultConfig\<lparr>TLSCertificate := ''/etc/proxy/tls.crt'',
         TLSPrivateKey := ''/etc/proxy/tls.key''\<rparr>)) \<noteq> Some NoPrivateKey
   \<and> fst (isValid sampleEnv (newDefaultConfig\<lparr>TLSCertificate := ''/etc/proxy/tls.crt'',
         TLSPrivateKey := ''/etc/proxy/tls.key''\<rparr>)) \<noteq> Some NoCertificate
   \<and> (\<forall>p. fst (isValid sampleEnv (newDefaultConfig\<lparr>TLSCertificate := ''/etc/proxy/tls.crt'',
         TLSPrivateKey := ''/etc/proxy/tls.key''\<rparr>)) \<noteq> Some (CertificateMissing p))
   \<and> (\<forall>p. fst (isValid sampleEnv (newDefaultConfig\<lparr>TLSCertificate := ''/etc/proxy/tls.crt'',
         TLSPrivateKey := ''/etc/proxy/tls.key''\<rparr>)) \<noteq> Some (PrivateKeyMissing p))"
proof -
  have files: "fileExists sampleEnv ''/etc/proxy/tls.crt''"
    "fileExists sampleEnv ''/etc/proxy/tls.key''"
    by (simp_all add: sampleEnv_def)
  have one: "TLSCertificate (newDefaultConfig\<lparr>TLSCertificate := ''/etc/proxy/tls.crt''\<rparr>) \<noteq> ''''"
    "TLSPrivateKey (newDefaultConfig\<lparr>TLSCertificate := ''/etc/proxy/tls.crt''\<rparr>) = ''''"
    by (simp_all add: newDefaultConfig_def)
  show ?thesis
    using files one
      isValid_tls_pair [of "newDefaultConfig\<lparr>TLSCertificate := ''/etc/proxy/tls.crt''\<rparr>"
        sampleEnv]
      isValid_tls_pair [of "newDefaultConfig\<lparr>TLSCertificate := ''/etc/proxy/tls.crt'',
        TLSPrivateKey := ''/etc/proxy/tls.key''\<rparr>" sampleEnv]
    by simp
qed

text \<open>
  Claim C3, as amended. Take the default configuration and set only \<open>Upstream\<close>, to a
  string that is not empty and that \<open>url.Parse\<close> accepts; forwarding is off, as in the
  default. Then \<open>isValid\<close> returns the error "you have not specified the client id" and
  leaves the configuration as it is: the default configuration verifies tokens and has
  no client id. With \<open>SkipTokenVerification\<close> set as well, \<open>isValid\<close> returns no error.
\<close>

theorem isValid_default_with_upstream:
  assumes "u \<noteq> ''''" and "url_Parse env u = None"
  shows "isValid env (newDefaultConfig\<lparr>Upstream := u\<rparr>)
           = (Some NoClientID, newDefaultConfig\<lparr>Upstream := u\<rparr>)
         \<and> isValid env (newDefaultConfig\<lparr>Upstream := u, SkipTokenVerification := True\<rparr>)
           = (None, newDefaultConfig\<lparr>Upstream := u, SkipTokenVerification := True\<rparr>)"
  using assms
  by (simp add: isValid_def isValid_proxy_def isValid_verification_def isValid_loops_def
        newDefaultConfig_def)

theorem isValid_default_with_upstream_witness:
  "''http://127.0.0.1:8080'' \<noteq> ''''
   \<and> url_Parse sampleEnv ''http://127.0.0.1:8080'' = None
   \<and> isValid sampleEnv (newDefaultConfig\<lparr>Upstream := ''http://127.0.0.1:8080''\<rparr>)
       = (Some NoClientID, newDefaultConfig\<lparr>Upstream := ''http://127.0.0.1:8080''\<rparr>)
   \<and> isValid sampleEnv (newDefaultConfig\<lparr>Upstream := ''http://127.0.0.1:8080'',
         SkipTokenVerification := True\<rparr>)
       = (None, newDefaultConfig\<lparr>Upstream := ''http://127.0.0.1:8080'',
         SkipTokenVerification := True\<rparr>)"
proof -
  have h1: "''http://127.0.0.1:8080'' \<noteq> ''''" by simp
  have h2: "url_Parse sampleEnv ''http://127.0.0.1:8080'' = None"
    by (simp add: sampleEnv_def)
  show ?thesis using isValid_default_with_upstream [OF h1 h2] h2 by simp
qed

text \<open>
  The claim as it was written: the default configuration with a valid upstream passes
  the validator. On the sample machine it does not.
\<close>

theorem isValid_default_with_upstream_counterexample:
  "url_Parse sampleEnv ''http://127.0.0.1:8080'' = None
   \<and> \<not> EnableForwarding (newDefaultConfig\<lparr>Upstream := ''http://127.0.0.1:8080''\<rparr>)
   \<and> fst (isValid sampleEnv (newDefaultConfig\<lparr>Upstream := ''http://127.0.0.1:8080''\<rparr>))
       = Some NoClientID"
  by (simp add: isValid_def isValid_proxy_def isValid_verification_def newDefaultConfig_def
        sampleEnv_def)

subsection \<open>The encryption key\<close>

lemma isValid_Some:
  "fst (isValid env r) = Some e \<Longrightarrow>
     e = NoListen \<or> e = NoPrivateKey \<or> e = NoCertificate
     \<or> (\<exists>p. e = CertificateMissing p) \<or> (\<exists>p. e = PrivateKeyMissing p)
     \<or> (\<exists>p. e = CaCertificateMissing p) \<or> (\<exists>p. e = ClientCertificateMissing p)
     \<or> (EnableForwarding r \<and> fst (isValid_forwarding r) = Some e)
     \<or> (\<not> EnableForwarding r \<and> fst (isValid_proxy env r) = Some e)"
  unfolding isValid_def by (simp split: if_splits; blast)

lemma isValid_session_key:
  assumes "EnableRefreshTokens r"
    and "length (EncryptionKey r) \<noteq> 16" and "length (EncryptionKey r) \<noteq> 32"
  shows "fst (isValid_session env r) =
           Some (if EncryptionKey r = '''' then NoEncryptionKey
                 else EncryptionKeyLength (length (EncryptionKey r)))"
  using assms by (simp add: isValid_session_def)

lemma isValid_verification_key:
  assumes "EnableRefreshTokens r"
    and "length (EncryptionKey r) \<noteq> 16" and "length (EncryptionKey r) \<noteq> 32"
  shows "\<exists>e. fst (isValid_verification env r) = Some e"
proof -
  have "\<exists>e. fst (isValid_session env (trimRedirectionURL r)) = Some e"
    using assms isValid_session_key [of "trimRedirectionURL r" env]
    by (simp add: trimRedirectionURL_eq)
  then show ?thesis by (simp add: isValid_verification_def)
qed

lemma isValid_proxy_key:
  assumes "\<not> SkipTokenVerification r" and "EnableRefreshTokens r"
    and "length (EncryptionKey r) \<noteq> 16" and "length (EncryptionKey r) \<noteq> 32"
  shows "\<exists>e. fst (isValid_proxy env r) = Some e"
  using assms isValid_verification_key [of r env]
  by (simp add: isValid_proxy_def split: option.splits)

lemma isValid_proxy_reached:
  assumes "Listen r \<noteq> ''''"
    and "(TLSCertificate r = '''' \<and> TLSPrivateKey r = '''')
       \<or> (TLSCertificate r \<noteq> '''' \<and> TLSPrivateKey r \<noteq> ''''
           \<and> fileExists env (TLSCertificate r) \<and> fileExists env (TLSPrivateKey r))"
    and "TLSCaCertificate r = '''' \<or> fileExists env (TLSCaCertificate r)"
    and "TLSClientCertificate r = '''' \<or> fileExists env (TLSClientCertificate r)"
    and "\<not> EnableForwarding r"
  shows "isValid env r = isValid_proxy env r"
  using assms unfolding isValid_def by auto

text \<open>
  Claim C9. Take a configuration with forwarding off, token verification on and refresh
  tokens on. If the length of the encryption key is neither 16 nor 32, \<open>isValid\<close> returns
  an error. If it is 16 or 32, \<open>isValid\<close> returns neither of the two errors of that
  invariant (lines 105 and 108). If the length is neither 16 nor 32, the key is not empty
  and every check before line 104 passes, the error is the one of line 108 with the length
  of the key in its message.
\<close>

theorem isValid_encryption_key:
  assumes "\<not> EnableForwarding r" and "\<not> SkipTokenVerification r"
    and "EnableRefreshTokens r"
  shows "(length (EncryptionKey r) \<noteq> 16 \<and> length (EncryptionKey r) \<noteq> 32
           \<longrightarrow> (\<exists>e. fst (isValid env r) = Some e))
       \<and> (length (EncryptionKey r) = 16 \<or> length (EncryptionKey r) = 32
           \<longrightarrow> fst (isValid env r) \<noteq> Some NoEncryptionKey
               \<and> (\<forall>n. fst (isValid env r) \<noteq> Some (EncryptionKeyLength n)))
       \<and> (length (EncryptionKey r) \<noteq> 16 \<and> length (EncryptionKey r) \<noteq> 32
          \<and> EncryptionKey r \<noteq> '''' \<and> Listen r \<noteq> ''''
          \<and> ((TLSCertificate r = '''' \<and> TLSPrivateKey r = '''')
             \<or> (TLSCertificate r \<noteq> '''' \<and> TLSPrivateKey r \<noteq> ''''
                 \<and> fileExists env (TLSCertificate r) \<and> fileExists env (TLSPrivateKey r)))
          \<and> (TLSCaCertificate r = '''' \<or> fileExists env (TLSCaCertificate r))
          \<and> (TLSClientCertificate r = '''' \<or> fileExists env (TLSClientCertificate r))
          \<and> Upstream r \<noteq> '''' \<and> url_Parse env (Upstream r) = None
          \<and> ClientID r \<noteq> '''' \<and> DiscoveryURL r \<noteq> ''''
           \<longrightarrow> fst (isValid env r) = Some (EncryptionKeyLength (length (EncryptionKey r))))"
proof (intro conjI impI)
  assume bad: "length (EncryptionKey r) \<noteq> 16 \<and> length (EncryptionKey r) \<noteq> 32"
  have "\<exists>e. fst (isValid_proxy env r) = Some e"
    using assms bad isValid_proxy_key [of r env] by simp
  then show "\<exists>e. fst (isValid env r) = Some e"
    using assms(1) unfolding isValid_def by auto
next
  assume good: "length (EncryptionKey r) = 16 \<or> length (EncryptionKey r) = 32"
  have *: "e \<noteq> NoEncryptionKey \<and> (\<forall>n. e \<noteq> EncryptionKeyLength n)"
    if "fst (isValid env r) = Some e" for e
    using isValid_Some [OF that] isValid_proxy_Some [of env r e] assms(1) good
    by (elim disjE) auto
  show "fst (isValid env r) \<noteq> Some NoEncryptionKey" using * by blast
  show "\<forall>n. fst (isValid env r) \<noteq> Some (EncryptionKeyLength n)" using * by blast
next
  assume h: "length (EncryptionKey r) \<noteq> 16 \<and> length (EncryptionKey r) \<noteq> 32
          \<and> EncryptionKey r \<noteq> '''' \<and> Listen r \<noteq> ''''
          \<and> ((TLSCertificate r = '''' \<and> TLSPrivateKey r = '''')
             \<or> (TLSCertificate r \<noteq> '''' \<and> TLSPrivateKey r \<noteq> ''''
                 \<and> fileExists env (TLSCertificate r) \<and> fileExists env (TLSPrivateKey r)))
          \<and> (TLSCaCertificate r = '''' \<or> fileExists env (TLSCaCertificate r))
          \<and> (TLSClientCertificate r = '''' \<or> fileExists env (TLSClientCertificate r))
          \<and> Upstream r \<noteq> '''' \<and> url_Parse env (Upstream r) = None
          \<and> ClientID r \<noteq> '''' \<and> DiscoveryURL r \<noteq> ''''"
  then have "isValid env r = isValid_proxy env r"
    using assms(1) isValid_proxy_reached [of r env] by blast
  moreover have "isValid_proxy env r = isValid_session env (trimRedirectionURL r)"
    using h assms(2) by (simp add: isValid_proxy_def isValid_verification_def)
  moreover have "fst (isValid_session env (trimRedirectionURL r))
      = Some (EncryptionKeyLength (length (EncryptionKey r)))"
    using h assms(3) isValid_session_key [of "trimRedirectionURL r" env]
    by (simp add: trimRedirectionURL_eq)
  ultimately show "fst (isValid env r) = Some (EncryptionKeyLength (length (EncryptionKey r)))"
    by simp
qed

text \<open>
  The theorem at a key of 15 bytes and at a key of 16 bytes, on the sample machine; the
  message of the first cites the length 15.
\<close>

theorem isValid_encryption_key_witness:
  "\<not> EnableForwarding (proxyConfig\<lparr>EnableRefreshTokens := True, EncryptionKey := ''0123456789abcde''\<rparr>)
   \<and> \<not> SkipTokenVerification (proxyConfig\<lparr>EnableRefreshTokens := True, EncryptionKey := ''0123456789abcde''\<rparr>)
   \<and> EnableRefreshTokens (proxyConfig\<lparr>EnableRefreshTokens := True, EncryptionKey := ''0123456789abcde''\<rparr>)
   \<and> length ''0123456789abcde'' = 15
   \<and> fst (isValid sampleEnv (proxyConfig\<lparr>EnableRefreshTokens := True, EncryptionKey := ''0123456789abcde''\<rparr>))
       = Some (EncryptionKeyLength 15)
   \<and> Error (EncryptionKeyLength 15) = ''the encryption key (15) must be either 16 or 32 characters for AES-128/AES-256 selection''
   \<and> length ''0123456789abcdef'' = 16
   \<and> fst (isValid sampleEnv (proxyConfig\<lparr>EnableRefreshTokens := True, EncryptionKey := ''0123456789abcdef''\<rparr>))
       \<noteq> Some NoEncryptionKey
   \<and> (\<forall>n. fst (isValid sampleEnv (proxyConfig\<lparr>EnableRefreshTokens := True, EncryptionKey := ''0123456789abcdef''\<rparr>))
       \<noteq> Some (EncryptionKeyLength n))"
proof -
  have flags: "\<not> EnableForwarding (proxyConfig\<lparr>EnableRefreshTokens := True, EncryptionKey := k\<rparr>)"
    "\<not> SkipTokenVerification (proxyConfig\<lparr>EnableRefreshTokens := True, EncryptionKey := k\<rparr>)"
    "EnableRefreshTokens (proxyConfig\<lparr>EnableRefreshTokens := True, EncryptionKey := k\<rparr>)" for k
    by (simp_all add: proxyConfig_def newDefaultConfig_def)
  have fmt: "Error (EncryptionKeyLength 15) = ''the encryption key (15) must be either 16 or 32 characters for AES-128/AES-256 selection''"
    by code_simp
  show ?thesis
    using flags fmt
      isValid_encryption_key [OF flags, of "''0123456789abcde''" sampleEnv]
      isValid_encryption_key [OF flags, of "''0123456789abcdef''" sampleEnv]
    by (simp add: proxyConfig_def newDefaultConfig_def sampleEnv_def)
qed

subsection \<open>Resources and claim matchers\<close>

lemma isValid_loops_bad:
  assumes "(\<exists>res\<in>set (elems (Resources r)). IsValid env res \<noteq> None)
         \<or> (\<exists>kv\<in>set (entries (MatchClaims r)). regexp_Compile env (snd kv) \<noteq> None)"
  shows "fst (isValid_loops env r) \<noteq> None"
  using assms by (auto simp: isValid_loops_None validResources_None validClaims_None)

lemma isValid_session_bad:
  assumes "fst (isValid_loops env r) \<noteq> None"
  shows "fst (isValid_session env r) \<noteq> None"
  using assms by (simp add: isValid_session_def split: option.splits)

lemma isValid_loops_trim:
  "fst (isValid_loops env (trimRedirectionURL r)) = fst (isValid_loops env r)"
  by (simp add: isValid_loops_def trimRedirectionURL_eq split: option.splits)

lemma isValid_proxy_bad:
  assumes "fst (isValid_loops env r) \<noteq> None"
  shows "fst (isValid_proxy env r) \<noteq> None"
proof -
  have "fst (isValid_session env (trimRedirectionURL r)) \<noteq> None"
    using assms by (intro isValid_session_bad) (simp add: isValid_loops_trim)
  then have "fst (isValid_verification env r) \<noteq> None"
    by (simp add: isValid_verification_def)
  with assms show ?thesis
    by (simp add: isValid_proxy_def split: option.splits)
qed

text \<open>
  Claim C2, as amended. With forwarding off, \<open>isValid\<close> returns an error whenever a
  resource of the sequence fails \<open>Resource.IsValid\<close> or a pattern of the claim matchers
  does not compile, whatever the other fields are. With forwarding on, the two loops are
  in the branch that is not taken: the error of \<open>isValid\<close> does not depend on the
  resources or on the claim matchers.
\<close>

theorem isValid_resources_and_claims:
  "(\<not> EnableForwarding r
     \<and> ((\<exists>res\<in>set (elems (Resources r)). IsValid env res \<noteq> None)
        \<or> (\<exists>kv\<in>set (entries (MatchClaims r)). regexp_Compile env (snd kv) \<noteq> None))
     \<longrightarrow> (\<exists>e. fst (isValid env r) = Some e))
   \<and> (EnableForwarding r
     \<longrightarrow> fst (isValid env (r\<lparr>Resources := rs, MatchClaims := m\<rparr>)) = fst (isValid env r))"
proof (intro conjI impI)
  assume h: "\<not> EnableForwarding r
     \<and> ((\<exists>res\<in>set (elems (Resources r)). IsValid env res \<noteq> None)
        \<or> (\<exists>kv\<in>set (entries (MatchClaims r)). regexp_Compile env (snd kv) \<noteq> None))"
  then have "fst (isValid_loops env r) \<noteq> None"
    by (intro isValid_loops_bad) blast
  then have "fst (isValid_proxy env r) \<noteq> None" by (rule isValid_proxy_bad)
  with h have "fst (isValid env r) \<noteq> None"
    unfolding isValid_def by auto
  then show "\<exists>e. fst (isValid env r) = Some e" by blast
next
  assume "EnableForwarding r"
  then show "fst (isValid env (r\<lparr>Resources := rs, MatchClaims := m\<rparr>)) = fst (isValid env r)"
    by (simp add: isValid_def isValid_forwarding_def)
qed

text \<open>
  The theorem at a reverse proxy with a resource that has no URI, and at the forwarding
  proxy.
\<close>

theorem isValid_resources_and_claims_witness:
  "\<not> EnableForwarding (proxyConfig\<lparr>Resources := Slice [noURI]\<rparr>)
   \<and> noURI \<in> set (elems (Resources (proxyConfig\<lparr>Resources := Slice [noURI]\<rparr>)))
   \<and> IsValid sampleEnv noURI \<noteq> None
   \<and> (\<exists>e. fst (isValid sampleEnv (proxyConfig\<lparr>Resources := Slice [noURI]\<rparr>)) = Some e)
   \<and> EnableForwarding forwardingConfig
   \<and> fst (isValid sampleEnv
       (forwardingConfig\<lparr>Resources := Slice [noURI], MatchClaims := Map [(''aud'', ''('')]\<rparr>))
     = fst (isValid sampleEnv forwardingConfig)"
proof -
  have a: "\<not> EnableForwarding (proxyConfig\<lparr>Resources := Slice [noURI]\<rparr>)"
    by (simp add: proxyConfig_def newDefaultConfig_def)
  have b: "noURI \<in> set (elems (Resources (proxyConfig\<lparr>Resources := Slice [noURI]\<rparr>)))"
    by simp
  have c: "IsValid sampleEnv noURI \<noteq> None"
    by (simp add: sampleEnv_def spec_IsValid_def noURI_def)
  have d: "EnableForwarding forwardingConfig"
    by (simp add: forwardingConfig_def)
  from b c have e: "\<exists>res\<in>set (elems (Resources (proxyConfig\<lparr>Resources := Slice [noURI]\<rparr>))).
      IsValid sampleEnv res \<noteq> None" by blast
  show ?thesis
    using a b c d e
      isValid_resources_and_claims [where r = "proxyConfig\<lparr>Resources := Slice [noURI]\<rparr>" and env = sampleEnv]
      isValid_resources_and_claims [where r = forwardingConfig and env = sampleEnv and rs = "Slice [noURI]"
        and m = "Map [(''aud'', ''('')]"]
    by blast
qed

text \<open>
  The claim as it was written covers forwarding mode. There, a resource without a URI
  and a pattern that does not compile pass the validator.
\<close>

theorem isValid_resources_and_claims_counterexample:
  "EnableForwarding (forwardingConfig\<lparr>Resources := Slice [noURI],
       MatchClaims := Map [(''aud'', ''('')]\<rparr>)
   \<and> IsValid sampleEnv noURI = Some ''the resource has no uri''
   \<and> regexp_Compile sampleEnv ''('' \<noteq> None
   \<and> fst (isValid sampleEnv (forwardingConfig\<lparr>Resources := Slice [noURI],
       MatchClaims := Map [(''aud'', ''('')]\<rparr>)) = None"
  by (simp add: isValid_def isValid_forwarding_def forwardingConfig_def newDefaultConfig_def
        sampleEnv_def spec_IsValid_def noURI_def)

section \<open>Properties of the file loader\<close>

lemma Ext_loop_dot:
  "i \<le> length path \<Longrightarrow>
     Ext_loop fs path i = [] \<or> hd (Ext_loop fs path i) = CHR ''.''"
proof (induction i)
  case 0
  then show ?case by simp
next
  case (Suc i)
  then have "i < length path" by simp
  then have "hd (drop i path) = path ! i" by (simp add: hd_drop_conv_nth)
  with Suc show ?case by simp
qed

lemma filepath_Ext_not_json: "filepath_Ext fs path \<noteq> ''json''"
  using Ext_loop_dot [of "length path" path fs]
  by (auto simp: filepath_Ext_def)

text \<open>
  Claim C4. \<open>filepath.Ext\<close> returns the empty string or a string that begins with a
  dot, so it never returns \<open>json\<close>: for every file name, \<open>readConfigFile\<close> hands the
  content of the file to the YAML decoder, and the branch of the JSON decoder is never
  taken. (When the file cannot be read, nothing is decoded.)
\<close>

theorem readConfigFile_decodes_yaml:
  "filepath_Ext fs filename \<noteq> ''json''
   \<and> readConfigFile fs filename config =
       (case ReadFile fs filename of
          Inl err \<Rightarrow> (Some (FileError err), config)
        | Inr content \<Rightarrow>
            (map_option DecodeError (fst (yaml_Unmarshal fs content config)),
             snd (yaml_Unmarshal fs content config)))"
  by (simp add: readConfigFile_def filepath_Ext_not_json Let_def split: sum.splits)


section \<open>Properties of the command-line overlay\<close>

subsection \<open>The statements that cannot fail\<close>

text \<open>
  A guarded assignment to a field is an assignment of a guarded value. This turns the
  sequence of statements of \<open>readOptions_fields\<close> into one update of the configuration.
\<close>

lemma if_update:
  "(if b then c\<lparr>Listen := v_Listen\<rparr> else c) = c\<lparr>Listen := (if b then v_Listen else Listen c)\<rparr>"
  "(if b then c\<lparr>ClientSecret := v_ClientSecret\<rparr> else c) = c\<lparr>ClientSecret := (if b then v_ClientSecret else ClientSecret c)\<rparr>"
  "(if b then c\<lparr>ClientID := v_ClientID\<rparr> else c) = c\<lparr>ClientID := (if b then v_ClientID else ClientID c)\<rparr>"
  "(if b then c\<lparr>DiscoveryURL := v_DiscoveryURL\<rparr> else c) = c\<lparr>DiscoveryURL := (if b then v_DiscoveryURL else DiscoveryURL c)\<rparr>"
  "(if b then c\<lparr>Upstream := v_Upstream\<rparr> else c) = c\<lparr>Upstream := (if b then v_Upstream else Upstream c)\<rparr>"
  "(if b then c\<lparr>RevocationEndpoint := v_RevocationEndpoint\<rparr> else c) = c\<lparr>RevocationEndpoint := (if b then v_RevocationEndpoint else RevocationEndpoint c)\<rparr>"
  "(if b then c\<lparr>UpstreamKeepalives := v_UpstreamKeepalives\<rparr> else c) = c\<lparr>UpstreamKeepalives := (if b then v_UpstreamKeepalives else UpstreamKeepalives c)\<rparr>"
  "(if b then c\<lparr>UpstreamTimeout := v_UpstreamTimeout\<rparr> else c) = c\<lparr>UpstreamTimeout := (if b then v_UpstreamTimeout else UpstreamTimeout c)\<rparr>"
  "(if b then c\<lparr>UpstreamKeepaliveTimeout := v_UpstreamKeepaliveTimeout\<rparr> else c) = c\<lparr>UpstreamKeepaliveTimeout := (if b then v_UpstreamKeepaliveTimeout else UpstreamKeepaliveTimeout c)\<rparr>"
  "(if b then c\<lparr>IdleDuration := v_IdleDuration\<rparr> else c) = c\<lparr>IdleDuration := (if b then v_IdleDuration else IdleDuration c)\<rparr>"
  "(if b then c\<lparr>SkipTokenVerification := v_SkipTokenVerification\<rparr> else c) = c\<lparr>SkipTokenVerification := (if b then v_SkipTokenVerification else SkipTokenVerification c)\<rparr>"
  "(if b then c\<lparr>SkipUpstreamTLSVerify := v_SkipUpstreamTLSVerify\<rparr> else c) = c\<lparr>SkipUpstreamTLSVerify := (if b then v_SkipUpstreamTLSVerify else SkipUpstreamTLSVerify c)\<rparr>"
  "(if b then c\<lparr>EncryptionKey := v_EncryptionKey\<rparr> else c) = c\<lparr>EncryptionKey := (if b then v_EncryptionKey else EncryptionKey c)\<rparr>"
  "(if b then c\<lparr>SecureCookie := v_SecureCookie\<rparr> else c) = c\<lparr>SecureCookie := (if b then v_SecureCookie else SecureCookie c)\<rparr>"
  "(if b then c\<lparr>CookieAccessName := v_CookieAccessName\<rparr> else c) = c\<lparr>CookieAccessName := (if b then v_CookieAccessName else CookieAccessName c)\<rparr>"
  "(if b then c\<lparr>CookieRefreshName := v_CookieRefreshName\<rparr> else c) = c\<lparr>CookieRefreshName := (if b then v_CookieRefreshName else CookieRefreshName c)\<rparr>"
  "(if b then c\<lparr>CookieDomain := v_CookieDomain\<rparr> else c) = c\<lparr>CookieDomain := (if b then v_CookieDomain else CookieDomain c)\<rparr>"
  "(if b then c\<lparr>AddClaims := v_AddClaims\<rparr> else c) = c\<lparr>AddClaims := (if b then v_AddClaims else AddClaims c)\<rparr>"
  "(if b then c\<lparr>StoreURL := v_StoreURL\<rparr> else c) = c\<lparr>StoreURL := (if b then v_StoreURL else StoreURL c)\<rparr>"
  "(if b then c\<lparr>NoRedirects := v_NoRedirects\<rparr> else c) = c\<lparr>NoRedirects := (if b then v_NoRedirects else NoRedirects c)\<rparr>"
  "(if b then c\<lparr>RedirectionURL := v_RedirectionURL\<rparr> else c) = c\<lparr>RedirectionURL := (if b then v_RedirectionURL else RedirectionURL c)\<rparr>"
  "(if b then c\<lparr>TLSCertificate := v_TLSCertificate\<rparr> else c) = c\<lparr>TLSCertificate := (if b then v_TLSCertificate else TLSCertificate c)\<rparr>"
  "(if b then c\<lparr>TLSPrivateKey := v_TLSPrivateKey\<rparr> else c) = c\<lparr>TLSPrivateKey := (if b then v_TLSPrivateKey else TLSPrivateKey c)\<rparr>"
  "(if b then c\<lparr>TLSCaCertificate := v_TLSCaCertificate\<rparr> else c) = c\<lparr>TLSCaCertificate := (if b then v_TLSCaCertificate else TLSCaCertificate c)\<rparr>"
  "(if b then c\<lparr>TLSClientCertificate := v_TLSClientCertificate\<rparr> else c) = c\<lparr>TLSClientCertificate := (if b then v_TLSClientCertificate else TLSClientCertificate c)\<rparr>"
  "(if b then c\<lparr>EnableMetrics := v_EnableMetrics\<rparr> else c) = c\<lparr>EnableMetrics := (if b then v_EnableMetrics else EnableMetrics c)\<rparr>"
  "(if b then c\<lparr>EnableProxyProtocol := v_EnableProxyProtocol\<rparr> else c) = c\<lparr>EnableProxyProtocol := (if b then v_EnableProxyProtocol else EnableProxyProtocol c)\<rparr>"
  "(if b then c\<lparr>EnableForwarding := v_EnableForwarding\<rparr> else c) = c\<lparr>EnableForwarding := (if b then v_EnableForwarding else EnableForwarding c)\<rparr>"
  "(if b then c\<lparr>EnableRefreshTokens := v_EnableRefreshTokens\<rparr> else c) = c\<lparr>EnableRefreshTokens := (if b then v_EnableRefreshTokens else EnableRefreshTokens c)\<rparr>"
  "(if b then c\<lparr>ForwardingUsername := v_ForwardingUsername\<rparr> else c) = c\<lparr>ForwardingUsername := (if b then v_ForwardingUsername else ForwardingUsername c)\<rparr>"
  "(if b then c\<lparr>ForwardingPassword := v_ForwardingPassword\<rparr> else c) = c\<lparr>ForwardingPassword := (if b then v_ForwardingPassword else ForwardingPassword c)\<rparr>"
  "(if b then c\<lparr>ForwardingDomains := v_ForwardingDomains\<rparr> else c) = c\<lparr>ForwardingDomains := (if b then v_ForwardingDomains else ForwardingDomains c)\<rparr>"
  "(if b then c\<lparr>SignInPage := v_SignInPage\<rparr> else c) = c\<lparr>SignInPage := (if b then v_SignInPage else SignInPage c)\<rparr>"
  "(if b then c\<lparr>ForbiddenPage := v_ForbiddenPage\<rparr> else c) = c\<lparr>ForbiddenPage := (if b then v_ForbiddenPage else ForbiddenPage c)\<rparr>"
  "(if b then c\<lparr>EnableSecurityFilter := v_EnableSecurityFilter\<rparr> else c) = c\<lparr>EnableSecurityFilter := (if b then v_EnableSecurityFilter else EnableSecurityFilter c)\<rparr>"
  "(if b then c\<lparr>LogJSONFormat := v_LogJSONFormat\<rparr> else c) = c\<lparr>LogJSONFormat := (if b then v_LogJSONFormat else LogJSONFormat c)\<rparr>"
  "(if b then c\<lparr>LogRequests := v_LogRequests\<rparr> else c) = c\<lparr>LogRequests := (if b then v_LogRequests else LogRequests c)\<rparr>"
  "(if b then c\<lparr>Verbose := v_Verbose\<rparr> else c) = c\<lparr>Verbose := (if b then v_Verbose else Verbose c)\<rparr>"
  "(if b then c\<lparr>Scopes := v_Scopes\<rparr> else c) = c\<lparr>Scopes := (if b then v_Scopes else Scopes c)\<rparr>"
  "(if b then c\<lparr>Hostnames := v_Hostnames\<rparr> else c) = c\<lparr>Hostnames := (if b then v_Hostnames else Hostnames c)\<rparr>"
  "(if b then c\<lparr>CrossOrigin := v_CrossOrigin\<rparr> else c) = c\<lparr>CrossOrigin := (if b then v_CrossOrigin else CrossOrigin c)\<rparr>"
  by simp_all

lemma if_update_CORS:
  "(if b then x\<lparr>Origins := w_Origins\<rparr> else x) = x\<lparr>Origins := (if b then w_Origins else Origins x)\<rparr>"
  "(if b then x\<lparr>CORS_Methods := w_CORS_Methods\<rparr> else x) = x\<lparr>CORS_Methods := (if b then w_CORS_Methods else CORS_Methods x)\<rparr>"
  "(if b then x\<lparr>CORS_Headers := w_CORS_Headers\<rparr> else x) = x\<lparr>CORS_Headers := (if b then w_CORS_Headers else CORS_Headers x)\<rparr>"
  "(if b then x\<lparr>ExposedHeaders := w_ExposedHeaders\<rparr> else x) = x\<lparr>ExposedHeaders := (if b then w_ExposedHeaders else ExposedHeaders x)\<rparr>"
  "(if b then x\<lparr>MaxAge := w_MaxAge\<rparr> else x) = x\<lparr>MaxAge := (if b then w_MaxAge else MaxAge x)\<rparr>"
  "(if b then x\<lparr>Credentials := w_Credentials\<rparr> else x) = x\<lparr>Credentials := (if b then w_Credentials else Credentials x)\<rparr>"
  by simp_all

lemma readOptions_fields_eq:
  "readOptions_fields cx config = config\<lparr>
     Listen := (if String cx ''listen'' \<noteq> '''' then String cx ''listen'' else Listen config),
     ClientSecret := (if String cx ''client-secret'' \<noteq> '''' then String cx ''client-secret'' else ClientSecret config),
     ClientID := (if String cx ''client-id'' \<noteq> '''' then String cx ''client-id'' else ClientID config),
     DiscoveryURL := (if String cx ''discovery-url'' \<noteq> '''' then String cx ''discovery-url'' else DiscoveryURL config),
     Upstream := (if String cx ''upstream-url'' \<noteq> '''' then String cx ''upstream-url'' else Upstream config),
     RevocationEndpoint := (if String cx ''revocation-url'' \<noteq> '''' then String cx ''revocation-url'' else RevocationEndpoint config),
     UpstreamKeepalives := (if IsSet cx ''upstream-keepalives'' then Bool cx ''upstream-keepalives'' else UpstreamKeepalives config),
     UpstreamTimeout := (if IsSet cx ''upstream-timeout'' then Duration cx ''upstream-timeout'' else UpstreamTimeout config),
     UpstreamKeepaliveTimeout := (if IsSet cx ''upstream-keepalive-timeout'' then Duration cx ''upstream-keepalive-timeout'' else UpstreamKeepaliveTimeout config),
     IdleDuration := (if IsSet cx ''idle-duration'' then Duration cx ''idle-duration'' else IdleDuration config),
     SkipTokenVerification := (if IsSet cx ''skip-token-verification'' then Bool cx ''skip-token-verification'' else SkipTokenVerification config),
     SkipUpstreamTLSVerify := (if IsSet cx ''skip-upstream-tls-verify'' then Bool cx ''skip-upstream-tls-verify'' else SkipUpstreamTLSVerify config),
     EncryptionKey := (if IsSet cx ''encryption-key'' then String cx ''encryption-key'' else EncryptionKey config),
     SecureCookie := (if IsSet cx ''secure-cookie'' then Bool cx ''secure-cookie'' else SecureCookie config),
     CookieAccessName := (if IsSet cx ''cookie-access-name'' then String cx ''cookie-access-name'' else CookieAccessName config),
     CookieRefreshName := (if IsSet cx ''cookie-refresh-name'' then String cx ''cookie-refresh-name'' else CookieRefreshName config),
     CookieDomain := (if IsSet cx ''cookie-domain'' then String cx ''cookie-domain'' else CookieDomain config),
     AddClaims := (if IsSet cx ''add-claims''
       then append_slice (AddClaims config) (elems (StringSlice cx ''add-claims'')) else AddClaims config),
     StoreURL := (if String cx ''store-url'' \<noteq> '''' then String cx ''store-url'' else StoreURL config),
     NoRedirects := (if IsSet cx ''no-redirects'' then Bool cx ''no-redirects'' else NoRedirects config),
     RedirectionURL := (if String cx ''redirection-url'' \<noteq> '''' then String cx ''redirection-url'' else RedirectionURL config),
     TLSCertificate := (if IsSet cx ''tls-cert'' then String cx ''tls-cert'' else TLSCertificate config),
     TLSPrivateKey := (if IsSet cx ''tls-private-key'' then String cx ''tls-private-key'' else TLSPrivateKey config),
     TLSCaCertificate := (if IsSet cx ''tls-ca-certificate'' then String cx ''tls-ca-certificate'' else TLSCaCertificate config),
     TLSClientCertificate := (if IsSet cx ''tls-client-certificate'' then String cx ''tls-client-certificate'' else TLSClientCertificate config),
     EnableMetrics := (if IsSet cx ''enable-metrics'' then Bool cx ''enable-metrics'' else EnableMetrics config),
     EnableProxyProtocol := (if IsSet cx ''enable-proxy-protocol'' then Bool cx ''enable-proxy-protocol'' else EnableProxyProtocol config),
     EnableForwarding := (if IsSet cx ''enable-forwarding'' then Bool cx ''enable-forwarding'' else EnableForwarding config),
     EnableRefreshTokens := (if IsSet cx ''enable-refresh-tokens'' then Bool cx ''enable-refresh-tokens'' else EnableRefreshTokens config),
     ForwardingUsername := (if IsSet cx ''forwarding-username'' then String cx ''forwarding-username'' else ForwardingUsername config),
     ForwardingPassword := (if IsSet cx ''forwarding-password'' then String cx ''forwarding-password'' else ForwardingPassword config),
     ForwardingDomains := (if IsSet cx ''forwarding-domains''
       then append_slice (ForwardingDomains config) (elems (StringSlice cx ''forwarding-domains'')) else ForwardingDomains config),
     SignInPage := (if IsSet cx ''signin-page'' then String cx ''signin-page'' else SignInPage config),
     ForbiddenPage := (if IsSet cx ''forbidden-page'' then String cx ''forbidden-page'' else ForbiddenPage config),
     EnableSecurityFilter := (if IsSet cx ''enable-security-filter'' then True else EnableSecurityFilter config),
     LogJSONFormat := (if IsSet cx ''json-logging'' then Bool cx ''json-logging'' else LogJSONFormat config),
     LogRequests := (if IsSet cx ''log-requests'' then Bool cx ''log-requests'' else LogRequests config),
     Verbose := (if IsSet cx ''verbose'' then Bool cx ''verbose'' else Verbose config),
     Scopes := (if IsSet cx ''scope'' then StringSlice cx ''scope'' else Scopes config),
     Hostnames := (if IsSet cx ''hostname''
       then append_slice (Hostnames config) (elems (StringSlice cx ''hostname'')) else Hostnames config),
     CrossOrigin := (CrossOrigin config)\<lparr>
       Origins := (if IsSet cx ''cors-origins''
         then append_slice (Origins (CrossOrigin config)) (elems (StringSlice cx ''cors-origins''))
         else Origins (CrossOrigin config)),
       CORS_Methods := (if IsSet cx ''cors-methods''
         then append_slice (CORS_Methods (CrossOrigin config)) (elems (StringSlice cx ''cors-methods''))
         else CORS_Methods (CrossOrigin config)),
       CORS_Headers := (if IsSet cx ''cors-headers''
         then append_slice (CORS_Headers (CrossOrigin config)) (elems (StringSlice cx ''cors-headers''))
         else CORS_Headers (CrossOrigin config)),
       ExposedHeaders := (if IsSet cx ''cors-exposed-headers''
         then append_slice (ExposedHeaders (CrossOrigin config)) (elems (StringSlice cx ''cors-exposed-headers''))
         else ExposedHeaders (CrossOrigin config)),
       MaxAge := (if IsSet cx ''cors-max-age'' then Duration cx ''cors-max-age''
         else MaxAge (CrossOrigin config)),
       Credentials := (if IsSet cx ''cors-credentials'' then BoolT cx ''cors-credentials''
         else Credentials (CrossOrigin config))\<rparr>\<rparr>"
  by (simp add: readOptions_fields_def Let_def if_update if_update_CORS
        cong del: if_weak_cong)

subsection \<open>What the later statements leave alone\<close>

text \<open>
  Lines 298-327 write to \<open>MatchClaims\<close> and to \<open>Resources\<close> only: whatever can be read
  from a configuration without looking at these two fields is the same before and
  after, also when \<open>readOptions\<close> returns an error or panics.
\<close>

lemma readOptions_keypairs_frame:
  assumes "\<And>c m. g (c\<lparr>MatchClaims := m\<rparr>) = g c"
  shows "g (snd (readOptions_keypairs env cx name c)) = g c"
  by (simp add: readOptions_keypairs_def assms split: sum.splits option.splits)

lemma andThen_frame:
  assumes "\<And>c. g (snd (f c)) = g c"
  shows "g (snd (andThen res f)) = g (snd res)"
  by (simp add: andThen_def assms split: outcome.splits option.splits)

lemma readOptions_maps_frame:
  assumes "\<And>c m. g (c\<lparr>MatchClaims := m\<rparr>) = g c"
  shows "g (snd (readOptions_maps env cx c)) = g c"
  unfolding readOptions_maps_def
  by (simp add: andThen_frame readOptions_keypairs_frame assms)

lemma readOptions_resources_frame:
  assumes "\<And>c rs. g (c\<lparr>Resources := rs\<rparr>) = g c"
  shows "g (snd (readOptions_resources env xs c)) = g c"
  by (induction xs arbitrary: c) (simp_all add: assms split: sum.splits)

lemma readOptions_frame:
  assumes "\<And>c m. g (c\<lparr>MatchClaims := m\<rparr>) = g c"
    and "\<And>c rs. g (c\<lparr>Resources := rs\<rparr>) = g c"
  shows "g (snd (readOptions env cx config)) = g (readOptions_fields cx config)"
  unfolding readOptions_def
  by (simp add: andThen_frame readOptions_maps_frame readOptions_resources_frame assms)

lemma readOptions_scalars:
  "Listen (snd (readOptions env cx config)) =
     (if String cx ''listen'' \<noteq> '''' then String cx ''listen'' else Listen config)"
  "ClientSecret (snd (readOptions env cx config)) =
     (if String cx ''client-secret'' \<noteq> '''' then String cx ''client-secret'' else ClientSecret config)"
  "ClientID (snd (readOptions env cx config)) =
     (if String cx ''client-id'' \<noteq> '''' then String cx ''client-id'' else ClientID config)"
  "DiscoveryURL (snd (readOptions env cx config)) =
     (if String cx ''discovery-url'' \<noteq> '''' then String cx ''discovery-url'' else DiscoveryURL config)"
  "Upstream (snd (readOptions env cx config)) =
     (if String cx ''upstream-url'' \<noteq> '''' then String cx ''upstream-url'' else Upstream config)"
  "RevocationEndpoint (snd (readOptions env cx config)) =
     (if String cx ''revocation-url'' \<noteq> '''' then String cx ''revocation-url'' else RevocationEndpoint config)"
  "StoreURL (snd (readOptions env cx config)) =
     (if String cx ''store-url'' \<noteq> '''' then String cx ''store-url'' else StoreURL config)"
  "RedirectionURL (snd (readOptions env cx config)) =
     (if String cx ''redirection-url'' \<noteq> '''' then String cx ''redirection-url'' else RedirectionURL config)"
  "UpstreamKeepalives (snd (readOptions env cx config)) =
     (if IsSet cx ''upstream-keepalives'' then Bool cx ''upstream-keepalives'' else UpstreamKeepalives config)"
  "UpstreamTimeout (snd (readOptions env cx config)) =
     (if IsSet cx ''upstream-timeout'' then Duration cx ''upstream-timeout'' else UpstreamTimeout config)"
  "UpstreamKeepaliveTimeout (snd (readOptions env cx config)) =
     (if IsSet cx ''upstream-keepalive-timeout'' then Duration cx ''upstream-keepalive-timeout'' else UpstreamKeepaliveTimeout config)"
  "IdleDuration (snd (readOptions env cx config)) =
     (if IsSet cx ''idle-duration'' then Duration cx ''idle-duration'' else IdleDuration config)"
  "SkipTokenVerification (snd (readOptions env cx config)) =
     (if IsSet cx ''skip-token-verification'' then Bool cx ''skip-token-verification'' else SkipTokenVerification config)"
  "SkipUpstreamTLSVerify (snd (readOptions env cx config)) =
     (if IsSet cx ''skip-upstream-tls-verify'' then Bool cx ''skip-upstream-tls-verify'' else SkipUpstreamTLSVerify config)"
  "EncryptionKey (snd (readOptions env cx config)) =
     (if IsSet cx ''encryption-key'' then String cx ''encryption-key'' else EncryptionKey config)"
  "SecureCookie (snd (readOptions env cx config)) =
     (if IsSet cx ''secure-cookie'' then Bool cx ''secure-cookie'' else SecureCookie config)"
  "CookieAccessName (snd (readOptions env cx config)) =
     (if IsSet cx ''cookie-access-name'' then String cx ''cookie-access-name'' else CookieAccessName config)"
  "CookieRefreshName (snd (readOptions env cx config)) =
     (if IsSet cx ''cookie-refresh-name'' then String cx ''cookie-refresh-name'' else CookieRefreshName config)"
  "NoRedirects (snd (readOptions env cx config)) =
     (if IsSet cx ''no-redirects'' then Bool cx ''no-redirects'' else NoRedirects config)"
  "TLSCertificate (snd (readOptions env cx config)) =
     (if IsSet cx ''tls-cert'' then String cx ''tls-cert'' else TLSCertificate config)"
  "TLSPrivateKey (snd (readOptions env cx config)) =
     (if IsSet cx ''tls-private-key'' then String cx ''tls-private-key'' else TLSPrivateKey config)"
  "TLSCaCertificate (snd (readOptions env cx config)) =
     (if IsSet cx ''tls-ca-certificate'' then String cx ''tls-ca-certificate'' else TLSCaCertificate config)"
  "TLSClientCertificate (snd (readOptions env cx config)) =
     (if IsSet cx ''tls-client-certificate'' then String cx ''tls-client-certificate'' else TLSClientCertificate config)"
  "EnableMetrics (snd (readOptions env cx config)) =
     (if IsSet cx ''enable-metrics'' then Bool cx ''enable-metrics'' else EnableMetrics config)"
  "EnableProxyProtocol (snd (readOptions env cx config)) =
     (if IsSet cx ''enable-proxy-protocol'' then Bool cx ''enable-proxy-protocol'' else EnableProxyProtocol config)"
  "EnableForwarding (snd (readOptions env cx config)) =
     (if IsSet cx ''enable-forwarding'' then Bool cx ''enable-forwarding'' else EnableForwarding config)"
  "EnableRefreshTokens (snd (readOptions env cx config)) =
     (if IsSet cx ''enable-refresh-tokens'' then Bool cx ''enable-refresh-tokens'' else EnableRefreshTokens config)"
  "ForwardingUsername (snd (readOptions env cx config)) =
     (if IsSet cx ''forwarding-username'' then String cx ''forwarding-username'' else ForwardingUsername config)"
  "ForwardingPassword (snd (readOptions env cx config)) =
     (if IsSet cx ''forwarding-password'' then String cx ''forwarding-password'' else ForwardingPassword config)"
  "SignInPage (snd (readOptions env cx config)) =
     (if IsSet cx ''signin-page'' then String cx ''signin-page'' else SignInPage config)"
  "ForbiddenPage (snd (readOptions env cx config)) =
     (if IsSet cx ''forbidden-page'' then String cx ''forbidden-page'' else ForbiddenPage config)"
  "LogJSONFormat (snd (readOptions env cx config)) =
     (if IsSet cx ''json-logging'' then Bool cx ''json-logging'' else LogJSONFormat config)"
  "LogRequests (snd (readOptions env cx config)) =
     (if IsSet cx ''log-requests'' then Bool cx ''log-requests'' else LogRequests config)"
  "Verbose (snd (readOptions env cx config)) =
     (if IsSet cx ''verbose'' then Bool cx ''verbose'' else Verbose config)"
  "MaxAge (CrossOrigin (snd (readOptions env cx config))) =
     (if IsSet cx ''cors-max-age'' then Duration cx ''cors-max-age'' else MaxAge (CrossOrigin config))"
  "Credentials (CrossOrigin (snd (readOptions env cx config))) =
     (if IsSet cx ''cors-credentials'' then BoolT cx ''cors-credentials'' else Credentials (CrossOrigin config))"
proof -
  show "Listen (snd (readOptions env cx config)) =
     (if String cx ''listen'' \<noteq> '''' then String cx ''listen'' else Listen config)"
    using readOptions_frame [of "Listen" env cx config]
    by (simp add: readOptions_fields_eq)
  show "ClientSecret (snd (readOptions env cx config)) =
     (if String cx ''client-secret'' \<noteq> '''' then String cx ''client-secret'' else ClientSecret config)"
    using readOptions_frame [of "ClientSecret" env cx config]
    by (simp add: readOptions_fields_eq)
  show "ClientID (snd (readOptions env cx config)) =
     (if String cx ''client-id'' \<noteq> '''' then String cx ''client-id'' else ClientID config)"
    using readOptions_frame [of "ClientID" env cx config]
    by (simp add: readOptions_fields_eq)
  show "DiscoveryURL (snd (readOptions env cx config)) =
     (if String cx ''discovery-url'' \<noteq> '''' then String cx ''discovery-url'' else DiscoveryURL config)"
    using readOptions_frame [of "DiscoveryURL" env cx config]
    by (simp add: readOptions_fields_eq)
  show "Upstream (snd (readOptions env cx config)) =
     (if String cx ''upstream-url'' \<noteq> '''' then String cx ''upstream-url'' else Upstream config)"
    using readOptions_frame [of "Upstream" env cx config]
    by (simp add: readOptions_fields_eq)
  show "RevocationEndpoint (snd (readOptions env cx config)) =
     (if String cx ''revocation-url'' \<noteq> '''' then String cx ''revocation-url'' else RevocationEndpoint config)"
    using readOptions_frame [of "RevocationEndpoint" env cx config]
    by (simp add: readOptions_fields_eq)
  show "StoreURL (snd (readOptions env cx config)) =
     (if String cx ''store-url'' \<noteq> '''' then String cx ''store-url'' else StoreURL config)"
    using readOptions_frame [of "StoreURL" env cx config]
    by (simp add: readOptions_fields_eq)
  show "RedirectionURL (snd (readOptions env cx config)) =
     (if String cx ''redirection-url'' \<noteq> '''' then String cx ''redirection-url'' else RedirectionURL config)"
    using readOptions_frame [of "RedirectionURL" env cx config]
    by (simp add: readOptions_fields_eq)
  show "UpstreamKeepalives (snd (readOptions env cx config)) =
     (if IsSet cx ''upstream-keepalives'' then Bool cx ''upstream-keepalives'' else UpstreamKeepalives config)"
    using readOptions_frame [of "UpstreamKeepalives" env cx config]
    by (simp add: readOptions_fields_eq)
  show "UpstreamTimeout (snd (readOptions env cx config)) =
     (if IsSet cx ''upstream-timeout'' then Duration cx ''upstream-timeout'' else UpstreamTimeout config)"
    using readOptions_frame [of "UpstreamTimeout" env cx config]
    by (simp add: readOptions_fields_eq)
  show "UpstreamKeepaliveTimeout (snd (readOptions env cx config)) =
     (if IsSet cx ''upstream-keepalive-timeout'' then Duration cx ''upstream-keepalive-timeout'' else UpstreamKeepaliveTimeout config)"
    using readOptions_frame [of "UpstreamKeepaliveTimeout" env cx config]
    by (simp add: readOptions_fields_eq)
  show "IdleDuration (snd (readOptions env cx config)) =
     (if IsSet cx ''idle-duration'' then Duration cx ''idle-duration'' else IdleDuration config)"
    using readOptions_frame [of "IdleDuration" env cx config]
    by (simp add: readOptions_fields_eq)
  show "SkipTokenVerification (snd (readOptions env cx config)) =
     (if IsSet cx ''skip-token-verification'' then Bool cx ''skip-token-verification'' else SkipTokenVerification config)"
    using readOptions_frame [of "SkipTokenVerification" env cx config]
    by (simp add: readOptions_fields_eq)
  show "SkipUpstreamTLSVerify (snd (readOptions env cx config)) =
     (if IsSet cx ''skip-upstream-tls-verify'' then Bool cx ''skip-upstream-tls-verify'' else SkipUpstreamTLSVerify config)"
    using readOptions_frame [of "SkipUpstreamTLSVerify" env cx config]
    by (simp add: readOptions_fields_eq)
  show "EncryptionKey (snd (readOptions env cx config)) =
     (if IsSet cx ''encryption-key'' then String cx ''encryption-key'' else EncryptionKey config)"
    using readOptions_frame [of "EncryptionKey" env cx config]
    by (simp add: readOptions_fields_eq)
  show "SecureCookie (snd (readOptions env cx config)) =
     (if IsSet cx ''secure-cookie'' then Bool cx ''secure-cookie'' else SecureCookie config)"
    using readOptions_frame [of "SecureCookie" env cx config]
    by (simp add: readOptions_fields_eq)
  show "CookieAccessName (snd (readOptions env cx config)) =
     (if IsSet cx ''cookie-access-name'' then String cx ''cookie-access-name'' else CookieAccessName config)"
    using readOptions_frame [of "CookieAccessName" env cx config]
    by (simp add: readOptions_fields_eq)
  show "CookieRefreshName (snd (readOptions env cx config)) =
     (if IsSet cx ''cookie-refresh-name'' then String cx ''cookie-refresh-name'' else CookieRefreshName config)"
    using readOptions_frame [of "CookieRefreshName" env cx config]
    by (simp add: readOptions_fields_eq)
  show "NoRedirects (snd (readOptions env cx config)) =
     (if IsSet cx ''no-redirects'' then Bool cx ''no-redirects'' else NoRedirects config)"
    using readOptions_frame [of "NoRedirects" env cx config]
    by (simp add: readOptions_fields_eq)
  show "TLSCertificate (snd (readOptions env cx config)) =
     (if IsSet cx ''tls-cert'' then String cx ''tls-cert'' else TLSCertificate config)"
    using readOptions_frame [of "TLSCertificate" env cx config]
    by (simp add: readOptions_fields_eq)
  show "TLSPrivateKey (snd (readOptions env cx config)) =
     (if IsSet cx ''tls-private-key'' then String cx ''tls-private-key'' else TLSPrivateKey config)"
    using readOptions_frame [of "TLSPrivateKey" env cx config]
    by (simp add: readOptions_fields_eq)
  show "TLSCaCertificate (snd (readOptions env cx config)) =
     (if IsSet cx ''tls-ca-certificate'' then String cx ''tls-ca-certificate'' else TLSCaCertificate config)"
    using readOptions_frame [of "TLSCaCertificate" env cx config]
    by (simp add: readOptions_fields_eq)
  show "TLSClientCertificate (snd (readOptions env cx config)) =
     (if IsSet cx ''tls-client-certificate'' then String cx ''tls-client-certificate'' else TLSClientCertificate config)"
    using readOptions_frame [of "TLSClientCertificate" env cx config]
    by (simp add: readOptions_fields_eq)
  show "EnableMetrics (snd (readOptions env cx config)) =
     (if IsSet cx ''enable-metrics'' then Bool cx ''enable-metrics'' else EnableMetrics config)"
    using readOptions_frame [of "EnableMetrics" env cx config]
    by (simp add: readOptions_fields_eq)
  show "EnableProxyProtocol (snd (readOptions env cx config)) =
     (if IsSet cx ''enable-proxy-protocol'' then Bool cx ''enable-proxy-protocol'' else EnableProxyProtocol config)"
    using readOptions_frame [of "EnableProxyProtocol" env cx config]
    by (simp add: readOptions_fields_eq)
  show "EnableForwarding (snd (readOptions env cx config)) =
     (if IsSet cx ''enable-forwarding'' then Bool cx ''enable-forwarding'' else EnableForwarding config)"
    using readOptions_frame [of "EnableForwarding" env cx config]
    by (simp add: readOptions_fields_eq)
  show "EnableRefreshTokens (snd (readOptions env cx config)) =
     (if IsSet cx ''enable-refresh-tokens'' then Bool cx ''enable-refresh-tokens'' else EnableRefreshTokens config)"
    using readOptions_frame [of "EnableRefreshTokens" env cx config]
    by (simp add: readOptions_fields_eq)
  show "ForwardingUsername (snd (readOptions env cx config)) =
     (if IsSet cx ''forwarding-username'' then String cx ''forwarding-username'' else ForwardingUsername config)"
    using readOptions_frame [of "ForwardingUsername" env cx config]
    by (simp add: readOptions_fields_eq)
  show "ForwardingPassword (snd (readOptions env cx config)) =
     (if IsSet cx ''forwarding-password'' then String cx ''forwarding-password'' else ForwardingPassword config)"
    using readOptions_frame [of "ForwardingPassword" env cx config]
    by (simp add: readOptions_fields_eq)
  show "SignInPage (snd (readOptions env cx config)) =
     (if IsSet cx ''signin-page'' then String cx ''signin-page'' else SignInPage config)"
    using readOptions_frame [of "SignInPage" env cx config]
    by (simp add: readOptions_fields_eq)
  show "ForbiddenPage (snd (readOptions env cx config)) =
     (if IsSet cx ''forbidden-page'' then String cx ''forbidden-page'' else ForbiddenPage config)"
    using readOptions_frame [of "ForbiddenPage" env cx config]
    by (simp add: readOptions_fields_eq)
  show "LogJSONFormat (snd (readOptions env cx config)) =
     (if IsSet cx ''json-logging'' then Bool cx ''json-logging'' else LogJSONFormat config)"
    using readOptions_frame [of "LogJSONFormat" env cx config]
    by (simp add: readOptions_fields_eq)
  show "LogRequests (snd (readOptions env cx config)) =
     (if IsSet cx ''log-requests'' then Bool cx ''log-requests'' else LogRequests config)"
    using readOptions_frame [of "LogRequests" env cx config]
    by (simp add: readOptions_fields_eq)
  show "Verbose (snd (readOptions env cx config)) =
     (if IsSet cx ''verbose'' then Bool cx ''verbose'' else Verbose config)"
    using readOptions_frame [of "Verbose" env cx config]
    by (simp add: readOptions_fields_eq)
  show "MaxAge (CrossOrigin (snd (readOptions env cx config))) =
     (if IsSet cx ''cors-max-age'' then Duration cx ''cors-max-age'' else MaxAge (CrossOrigin config))"
    using readOptions_frame [of "\<lambda>c. MaxAge (CrossOrigin c)" env cx config]
    by (simp add: readOptions_fields_eq)
  show "Credentials (CrossOrigin (snd (readOptions env cx config))) =
     (if IsSet cx ''cors-credentials'' then BoolT cx ''cors-credentials'' else Credentials (CrossOrigin config))"
    using readOptions_frame [of "\<lambda>c. Credentials (CrossOrigin c)" env cx config]
    by (simp add: readOptions_fields_eq)
qed

text \<open>
  Claim C6, as amended. After \<open>readOptions\<close>, whatever it returns, each scalar field
  whose statement is guarded by \<open>cx.IsSet\<close> holds the value of its flag if the flag was
  set (the empty string included) and its old value otherwise. This is said of the
  fields below; nothing is said here of \<open>CookieDomain\<close>, whose flag is declared a list of
  strings and read with \<open>cx.String\<close>, nor of \<open>EnableSecurityFilter\<close>, which line 263 sets
  to \<open>true\<close> whatever the value of the flag. The eight string fields
  whose statement is guarded by \<open>cx.String(...) != ""\<close> (listen, client-secret,
  client-id, discovery-url, upstream-url, revocation-url, store-url, redirection-url)
  hold the value of the flag if that value is not empty and their old value otherwise,
  whether the flag was set or not.
\<close>

theorem readOptions_scalar_overlay:
  "Listen (snd (readOptions env cx config)) =
     (if String cx ''listen'' \<noteq> '''' then String cx ''listen'' else Listen config)
   \<and> ClientSecret (snd (readOptions env cx config)) =
     (if String cx ''client-secret'' \<noteq> '''' then String cx ''client-secret'' else ClientSecret config)
   \<and> ClientID (snd (readOptions env cx config)) =
     (if String cx ''client-id'' \<noteq> '''' then String cx ''client-id'' else ClientID config)
   \<and> DiscoveryURL (snd (readOptions env cx config)) =
     (if String cx ''discovery-url'' \<noteq> '''' then String cx ''discovery-url'' else DiscoveryURL config)
   \<and> Upstream (snd (readOptions env cx config)) =
     (if String cx ''upstream-url'' \<noteq> '''' then String cx ''upstream-url'' else Upstream config)
   \<and> RevocationEndpoint (snd (readOptions env cx config)) =
     (if String cx ''revocation-url'' \<noteq> '''' then String cx ''revocation-url'' else RevocationEndpoint config)
   \<and> StoreURL (snd (readOptions env cx config)) =
     (if String cx ''store-url'' \<noteq> '''' then String cx ''store-url'' else StoreURL config)
   \<and> RedirectionURL (snd (readOptions env cx config)) =
     (if String cx ''redirection-url'' \<noteq> '''' then String cx ''redirection-url'' else RedirectionURL config)
   \<and> UpstreamKeepalives (snd (readOptions env cx config)) =
     (if IsSet cx ''upstream-keepalives'' then Bool cx ''upstream-keepalives'' else UpstreamKeepalives config)
   \<and> UpstreamTimeout (snd (readOptions env cx config)) =
     (if IsSet cx ''upstream-timeout'' then Duration cx ''upstream-timeout'' else UpstreamTimeout config)
   \<and> UpstreamKeepaliveTimeout (snd (readOptions env cx config)) =
     (if IsSet cx ''upstream-keepalive-timeout'' then Duration cx ''upstream-keepalive-timeout'' else UpstreamKeepaliveTimeout config)
   \<and> IdleDuration (snd (readOptions env cx config)) =
     (if IsSet cx ''idle-duration'' then Duration cx ''idle-duration'' else IdleDuration config)
   \<and> SkipTokenVerification (snd (readOptions env cx config)) =
     (if IsSet cx ''skip-token-verification'' then Bool cx ''skip-token-verification'' else SkipTokenVerification config)
   \<and> SkipUpstreamTLSVerify (snd (readOptions env cx config)) =
     (if IsSet cx ''skip-upstream-tls-verify'' then Bool cx ''skip-upstream-tls-verify'' else SkipUpstreamTLSVerify config)
   \<and> EncryptionKey (snd (readOptions env cx config)) =
     (if IsSet cx ''encryption-key'' then String cx ''encryption-key'' else EncryptionKey config)
   \<and> SecureCookie (snd (readOptions env cx config)) =
     (if IsSet cx ''secure-cookie'' then Bool cx ''secure-cookie'' else SecureCookie config)
   \<and> CookieAccessName (snd (readOptions env cx config)) =
     (if IsSet cx ''cookie-access-name'' then String cx ''cookie-access-name'' else CookieAccessName config)
   \<and> CookieRefreshName (snd (readOptions env cx config)) =
     (if IsSet cx ''cookie-refresh-name'' then String cx ''cookie-refresh-name'' else CookieRefreshName config)
   \<and> NoRedirects (snd (readOptions env cx config)) =
     (if IsSet cx ''no-redirects'' then Bool cx ''no-redirects'' else NoRedirects config)
   \<and> TLSCertificate (snd (readOptions env cx config)) =
     (if IsSet cx ''tls-cert'' then String cx ''tls-cert'' else TLSCertificate config)
   \<and> TLSPrivateKey (snd (readOptions env cx config)) =
     (if IsSet cx ''tls-private-key'' then String cx ''tls-private-key'' else TLSPrivateKey config)
   \<and> TLSCaCertificate (snd (readOptions env cx config)) =
     (if IsSet cx ''tls-ca-certificate'' then String cx ''tls-ca-certificate'' else TLSCaCertificate config)
   \<and> TLSClientCertificate (snd (readOptions env cx config)) =
     (if IsSet cx ''tls-client-certificate'' then String cx ''tls-client-certificate'' else TLSClientCertificate config)
   \<and> EnableMetrics (snd (readOptions env cx config)) =
     (if IsSet cx ''enable-metrics'' then Bool cx ''enable-metrics'' else EnableMetrics config)
   \<and> EnableProxyProtocol (snd (readOptions env cx config)) =
     (if IsSet cx ''enable-proxy-protocol'' then Bool cx ''enable-proxy-protocol'' else EnableProxyProtocol config)
   \<and> EnableForwarding (snd (readOptions env cx config)) =
     (if IsSet cx ''enable-forwarding'' then Bool cx ''enable-forwarding'' else EnableForwarding config)
   \<and> EnableRefreshTokens (snd (readOptions env cx config)) =
     (if IsSet cx ''enable-refresh-tokens'' then Bool cx ''enable-refresh-tokens'' else EnableRefreshTokens config)
   \<and> ForwardingUsername (snd (readOptions env cx config)) =
     (if IsSet cx ''forwarding-username'' then String cx ''forwarding-username'' else ForwardingUsername config)
   \<and> ForwardingPassword (snd (readOptions env cx config)) =
     (if IsSet cx ''forwarding-password'' then String cx ''forwarding-password'' else ForwardingPassword config)
   \<and> SignInPage (snd (readOptions env cx config)) =
     (if IsSet cx ''signin-page'' then String cx ''signin-page'' else SignInPage config)
   \<and> ForbiddenPage (snd (readOptions env cx config)) =
     (if IsSet cx ''forbidden-page'' then String cx ''forbidden-page'' else ForbiddenPage config)
   \<and> LogJSONFormat (snd (readOptions env cx config)) =
     (if IsSet cx ''json-logging'' then Bool cx ''json-logging'' else LogJSONFormat config)
   \<and> LogRequests (snd (readOptions env cx config)) =
     (if IsSet cx ''log-requests'' then Bool cx ''log-requests'' else LogRequests config)
   \<and> Verbose (snd (readOptions env cx config)) =
     (if IsSet cx ''verbose'' then Bool cx ''verbose'' else Verbose config)
   \<and> MaxAge (CrossOrigin (snd (readOptions env cx config))) =
     (if IsSet cx ''cors-max-age'' then Duration cx ''cors-max-age'' else MaxAge (CrossOrigin config))
   \<and> Credentials (CrossOrigin (snd (readOptions env cx config))) =
     (if IsSet cx ''cors-credentials'' then BoolT cx ''cors-credentials'' else Credentials (CrossOrigin config))"
  by (intro conjI) (rule readOptions_scalars)+

text \<open>
  The claim as it was written: a string option set to the empty string overwrites its
  field. \<open>--listen=""\<close> on the default configuration leaves the listen address.
\<close>

theorem readOptions_scalar_overlay_counterexample:
  "IsSet (withString ''listen'' '''' noFlags) ''listen''
   \<and> String (withString ''listen'' '''' noFlags) ''listen'' = ''''
   \<and> Listen (snd (readOptions sampleEnv (withString ''listen'' '''' noFlags) newDefaultConfig))
      = ''127.0.0.1:3000''"
  using readOptions_scalars(1) [of sampleEnv "withString ''listen'' '''' noFlags" newDefaultConfig]
  by (simp add: withString_def stringFlags_def noFlags_def newDefaultConfig_def)

subsection \<open>The resource list\<close>

lemma append_slice_Cons:
  "append_slice (append_slice s [p]) ps = append_slice s (p # ps)"
  by (simp add: append_slice_def)

lemma readOptions_resources_stop:
  assumes "map (Parse env) good = map Inr parsed" and "Parse env bad = Inl err"
  shows "readOptions_resources env (good @ bad # rest) c =
           (Returned (Some (InvalidResource bad err)),
            c\<lparr>Resources := append_slice (Resources c) parsed\<rparr>)"
  using assms
proof (induction good arbitrary: parsed c)
  case Nil
  then show ?case by (simp add: append_slice_def)
next
  case (Cons x xs)
  then obtain p ps where parsed: "parsed = p # ps" and p: "Parse env x = Inr p"
    and ps: "map (Parse env) xs = map Inr ps"
    by (cases parsed) auto
  show ?case
    using Cons.IH [OF ps Cons.prems(2)] p
    by (simp add: parsed append_slice_Cons)
qed

lemma Resources_readOptions_fields:
  "Resources (readOptions_fields cx config) = Resources config"
  by (simp add: readOptions_fields_eq)

text \<open>
  Claim C5, as amended. Let the flags of key pairs be processed without failure, and
  let the \<open>resource\<close> flag be set to a list whose first malformed descriptor is \<open>bad\<close>,
  after the well-formed descriptors \<open>good\<close>. Then \<open>readOptions\<close> returns the error
  "invalid resource \<open>bad\<close>, \<open>err\<close>", where \<open>err\<close> is the error of the parser, and it
  leaves a configuration whose \<open>Resources\<close> are the old ones followed by the resources
  parsed from \<open>good\<close>: what was appended before the failure stays, and nothing of \<open>bad\<close>
  or of the descriptors after it is appended.
\<close>

theorem readOptions_malformed_resource:
  assumes "fst (readOptions_maps env cx (readOptions_fields cx config)) = Returned None"
    and "IsSet cx ''resource''"
    and "elems (StringSlice cx ''resource'') = good @ bad # rest"
    and "map (Parse env) good = map Inr parsed"
    and "Parse env bad = Inl err"
  shows "fst (readOptions env cx config) = Returned (Some (InvalidResource bad err))
       \<and> Error (InvalidResource bad err) = ''invalid resource '' @ bad @ '', '' @ err
       \<and> Resources (snd (readOptions env cx config)) = append_slice (Resources config) parsed"
proof -
  define c1 where "c1 = snd (readOptions_maps env cx (readOptions_fields cx config))"
  have res: "Resources c1 = Resources config"
    unfolding c1_def
    using readOptions_maps_frame [of Resources env cx "readOptions_fields cx config"]
    by (simp add: Resources_readOptions_fields)
  have "readOptions env cx config =
      readOptions_resources env (good @ bad # rest) c1"
    using assms(1,2,3) by (simp add: readOptions_def andThen_def c1_def)
  also have "\<dots> = (Returned (Some (InvalidResource bad err)),
      c1\<lparr>Resources := append_slice (Resources c1) parsed\<rparr>)"
    using assms(4,5) by (rule readOptions_resources_stop)
  finally show ?thesis by (simp add: res)
qed

lemma spec_Parse_admin:
  "spec_Parse ''uri=/admin|methods=GET,POST|roles=admin'' = Inr adminResource"
  by (simp add: spec_Parse_def trim_def adminResource_def)

lemma spec_Parse_bad: "spec_Parse ''bad'' = Inl ''malformed segment bad''"
  by (simp add: spec_Parse_def)

lemma noFlags_maps:
  "\<not> IsSet cx ''tag'' \<Longrightarrow> \<not> IsSet cx ''match-claims'' \<Longrightarrow> \<not> IsSet cx ''headers'' \<Longrightarrow>
     readOptions_maps env cx c = (Returned None, c)"
  by (simp add: readOptions_maps_def readOptions_keypairs_def andThen_def)

text \<open>
  The theorem at \<open>--resource "uri=/admin|methods=GET,POST|roles=admin" --resource bad\<close>
  on the default configuration.
\<close>

theorem readOptions_malformed_resource_witness:
  "IsSet (withStrings ''resource'' [''uri=/admin|methods=GET,POST|roles=admin'', ''bad''] noFlags)
     ''resource''
   \<and> Parse sampleEnv ''uri=/admin|methods=GET,POST|roles=admin'' = Inr adminResource
   \<and> Parse sampleEnv ''bad'' = Inl ''malformed segment bad''
   \<and> fst (readOptions sampleEnv
        (withStrings ''resource'' [''uri=/admin|methods=GET,POST|roles=admin'', ''bad''] noFlags)
        newDefaultConfig)
      = Returned (Some (InvalidResource ''bad'' ''malformed segment bad''))
   \<and> Error (InvalidResource ''bad'' ''malformed segment bad'')
      = ''invalid resource bad, malformed segment bad''
   \<and> Resources (snd (readOptions sampleEnv
        (withStrings ''resource'' [''uri=/admin|methods=GET,POST|roles=admin'', ''bad''] noFlags)
        newDefaultConfig))
      = Slice [adminResource]"
proof -
  define cx where
    "cx = withStrings ''resource'' [''uri=/admin|methods=GET,POST|roles=admin'', ''bad''] noFlags"
  have set: "IsSet cx ''resource''" "\<not> IsSet cx ''tag''" "\<not> IsSet cx ''match-claims''"
    "\<not> IsSet cx ''headers''"
    by (simp_all add: cx_def withStrings_def noFlags_def stringSliceFlags_def)
  have h1: "fst (readOptions_maps sampleEnv cx (readOptions_fields cx newDefaultConfig))
      = Returned None"
    using set by (simp add: noFlags_maps)
  have h3: "elems (StringSlice cx ''resource'')
      = [''uri=/admin|methods=GET,POST|roles=admin''] @ ''bad'' # []"
    by (simp add: cx_def withStrings_def stringSliceFlags_def)
  have p1: "Parse sampleEnv ''uri=/admin|methods=GET,POST|roles=admin'' = Inr adminResource"
    by (simp add: sampleEnv_def spec_Parse_admin)
  then have h4: "map (Parse sampleEnv) [''uri=/admin|methods=GET,POST|roles=admin'']
      = map Inr [adminResource]"
    by simp
  have h5: "Parse sampleEnv ''bad'' = Inl ''malformed segment bad''"
    by (simp add: sampleEnv_def spec_Parse_bad)
  have r0: "append_slice (Resources newDefaultConfig) [adminResource] = Slice [adminResource]"
    by (simp add: append_slice_def newDefaultConfig_def)
  show ?thesis
    using readOptions_malformed_resource [OF h1 set(1) h3 h4 h5] set(1) p1 h5 r0
    unfolding cx_def by simp
qed

text \<open>
  The claim as it was written: after a malformed descriptor the sequence of resources
  has gained no entry. On the same command line it has gained the first resource.
\<close>

theorem readOptions_malformed_resource_counterexample:
  "Parse sampleEnv ''bad'' = Inl ''malformed segment bad''
   \<and> elems (Resources newDefaultConfig) = []
   \<and> fst (readOptions sampleEnv
        (withStrings ''resource'' [''uri=/admin|methods=GET,POST|roles=admin'', ''bad''] noFlags)
        newDefaultConfig)
      = Returned (Some (InvalidResource ''bad'' ''malformed segment bad''))
   \<and> elems (Resources (snd (readOptions sampleEnv
        (withStrings ''resource'' [''uri=/admin|methods=GET,POST|roles=admin'', ''bad''] noFlags)
        newDefaultConfig)))
      = [adminResource]"
proof -
  define cx where
    "cx = withStrings ''resource'' [''uri=/admin|methods=GET,POST|roles=admin'', ''bad''] noFlags"
  have set: "IsSet cx ''resource''" "\<not> IsSet cx ''tag''" "\<not> IsSet cx ''match-claims''"
    "\<not> IsSet cx ''headers''"
    by (simp_all add: cx_def withStrings_def noFlags_def stringSliceFlags_def)
  have xs: "elems (StringSlice cx ''resource'')
      = [''uri=/admin|methods=GET,POST|roles=admin'', ''bad'']"
    by (simp add: cx_def withStrings_def stringSliceFlags_def)
  have p: "Parse sampleEnv ''uri=/admin|methods=GET,POST|roles=admin'' = Inr adminResource"
    "Parse sampleEnv ''bad'' = Inl ''malformed segment bad''"
    by (simp_all add: sampleEnv_def spec_Parse_admin spec_Parse_bad)
  have r0: "Resources (readOptions_fields cx newDefaultConfig) = NilSlice"
    by (simp add: Resources_readOptions_fields newDefaultConfig_def)
  have "readOptions sampleEnv cx newDefaultConfig =
      (Returned (Some (InvalidResource ''bad'' ''malformed segment bad'')),
       (readOptions_fields cx newDefaultConfig)\<lparr>Resources := Slice [adminResource]\<rparr>)"
    using set xs p r0
    by (simp add: readOptions_def noFlags_maps andThen_def append_slice_def)
  then show ?thesis
    using p by (simp add: cx_def newDefaultConfig_def)
qed

subsection \<open>The flags of key pairs\<close>

lemma readOptions_TagData_Headers:
  "TagData (snd (readOptions env cx config)) = TagData config"
  "Headers (snd (readOptions env cx config)) = Headers config"
  using readOptions_frame [of TagData env cx config]
    readOptions_frame [of Headers env cx config]
  by (simp_all add: readOptions_fields_eq)

lemma MatchClaims_readOptions_fields:
  "MatchClaims (readOptions_fields cx config) = MatchClaims config"
  by (simp add: readOptions_fields_eq)

lemma readOptions_single_keypairs:
  assumes "IsSet cx name" and "name \<in> {''tag'', ''match-claims'', ''headers''}"
    and "\<forall>n. n \<noteq> name \<longrightarrow> \<not> IsSet cx n"
    and "decodeKeyPairs env (elems (StringSlice cx name)) = Inr pairs"
    and "mergeMaps (MatchClaims config) pairs = Some m"
  shows "readOptions env cx config = (Returned None, (readOptions_fields cx config)\<lparr>MatchClaims := m\<rparr>)"
proof -
  have other: "\<not> IsSet cx n" if "n \<noteq> name" for n using assms(3) that by blast
  have kp: "readOptions_keypairs env cx name (readOptions_fields cx config)
      = (Returned None, (readOptions_fields cx config)\<lparr>MatchClaims := m\<rparr>)"
    using assms(1,4,5)
    by (simp add: readOptions_keypairs_def MatchClaims_readOptions_fields)
  have skip: "readOptions_keypairs env cx n c = (Returned None, c)" if "n \<noteq> name" for n c
    using other [OF that] by (simp add: readOptions_keypairs_def)
  have res: "\<not> IsSet cx ''resource''" using assms(2) other by auto
  from assms(2) consider "name = ''tag''" | "name = ''match-claims''" | "name = ''headers''"
    by blast
  then show ?thesis
  proof cases
    case 1
    then show ?thesis using kp skip [of "''match-claims''"] skip [of "''headers''"] res
      by (simp add: readOptions_def readOptions_maps_def andThen_def)
  next
    case 2
    then show ?thesis using kp skip [of "''tag''"] skip [of "''headers''"] res
      by (simp add: readOptions_def readOptions_maps_def andThen_def)
  next
    case 3
    then show ?thesis using kp skip [of "''tag''"] skip [of "''match-claims''"] res
      by (simp add: readOptions_def readOptions_maps_def andThen_def)
  qed
qed

text \<open>
  Claim C1 says that the pairs of the \<open>tag\<close> flag are merged into \<open>TagData\<close> and the
  pairs of the \<open>headers\<close> flag into \<open>Headers\<close>. What \<open>readOptions\<close> does with
  \<open>--tag "title=My Page"\<close> and with \<open>--headers X-Frame-Options=DENY\<close> on the default
  configuration: it returns no error, \<open>TagData\<close> and \<open>Headers\<close> stay empty, and the pair
  is in \<open>MatchClaims\<close>.
\<close>

theorem readOptions_tag_and_headers_into_MatchClaims:
  "fst (readOptions sampleEnv (withStrings ''tag'' [''title=My Page''] noFlags) newDefaultConfig)
      = Returned None
   \<and> TagData (snd (readOptions sampleEnv (withStrings ''tag'' [''title=My Page''] noFlags)
        newDefaultConfig)) = Map []
   \<and> MatchClaims (snd (readOptions sampleEnv (withStrings ''tag'' [''title=My Page''] noFlags)
        newDefaultConfig)) = Map [(''title'', ''My Page'')]
   \<and> fst (readOptions sampleEnv (withStrings ''headers'' [''X-Frame-Options=DENY''] noFlags)
        newDefaultConfig) = Returned None
   \<and> Headers (snd (readOptions sampleEnv (withStrings ''headers'' [''X-Frame-Options=DENY''] noFlags)
        newDefaultConfig)) = Map []
   \<and> MatchClaims (snd (readOptions sampleEnv
        (withStrings ''headers'' [''X-Frame-Options=DENY''] noFlags) newDefaultConfig))
      = Map [(''X-Frame-Options'', ''DENY'')]"
proof -
  have mc: "MatchClaims newDefaultConfig = Map []" "TagData newDefaultConfig = Map []"
    "Headers newDefaultConfig = Map []"
    by (simp_all add: newDefaultConfig_def)
  have tag: "readOptions sampleEnv (withStrings ''tag'' [''title=My Page''] noFlags)
      newDefaultConfig = (Returned None,
        (readOptions_fields (withStrings ''tag'' [''title=My Page''] noFlags) newDefaultConfig)
          \<lparr>MatchClaims := Map [(''title'', ''My Page'')]\<rparr>)"
    by (rule readOptions_single_keypairs [where name = "''tag''"
          and pairs = "Map [(''title'', ''My Page'')]"])
       (simp_all add: withStrings_def noFlags_def stringSliceFlags_def sampleEnv_def
          spec_decodeKeyPairs_def
          mergeMaps_def mc)
  have hdr: "readOptions sampleEnv (withStrings ''headers'' [''X-Frame-Options=DENY''] noFlags)
      newDefaultConfig = (Returned None,
        (readOptions_fields (withStrings ''headers'' [''X-Frame-Options=DENY''] noFlags)
           newDefaultConfig)\<lparr>MatchClaims := Map [(''X-Frame-Options'', ''DENY'')]\<rparr>)"
    by (rule readOptions_single_keypairs [where name = "''headers''"
          and pairs = "Map [(''X-Frame-Options'', ''DENY'')]"])
       (simp_all add: withStrings_def noFlags_def stringSliceFlags_def sampleEnv_def
          spec_decodeKeyPairs_def
          mergeMaps_def mc)
  show ?thesis
    using readOptions_TagData_Headers(1) [of sampleEnv
        "withStrings ''tag'' [''title=My Page''] noFlags" newDefaultConfig]
      readOptions_TagData_Headers(2) [of sampleEnv
        "withStrings ''headers'' [''X-Frame-Options=DENY''] noFlags" newDefaultConfig]
    by (simp add: tag hdr mc)
qed


end
